theory Spec2Isabelle
  imports Complex_Main
begin

section \<open>Numbers, vectors and quaternions\<close>

text \<open>
  The viewer computes with JavaScript numbers through the vector and quaternion classes of
  its rendering library (three.js, loaded from a CDN). A number is modelled as a
  \<^typ>\<open>real\<close>: every statement below is about exact arithmetic, the reading under which
  the specification speaks of equal lengths and equal vectors. The library operations are
  written out field by field as the library computes them, under the library's names
  (suffixed where HOL already uses the name).
\<close>

datatype vec3 = Vector3 (vx: real) (vy: real) (vz: real)

datatype quat = Quaternion (qx: real) (qy: real) (qz: real) (qw: real)

definition addV :: "vec3 \<Rightarrow> vec3 \<Rightarrow> vec3" where
  "addV a b = Vector3 (vx a + vx b) (vy a + vy b) (vz a + vz b)"

definition subV :: "vec3 \<Rightarrow> vec3 \<Rightarrow> vec3" where
  "subV a b = Vector3 (vx a - vx b) (vy a - vy b) (vz a - vz b)"

definition multiplyScalar :: "vec3 \<Rightarrow> real \<Rightarrow> vec3" where
  "multiplyScalar v s = Vector3 (vx v * s) (vy v * s) (vz v * s)"

definition divideScalar :: "vec3 \<Rightarrow> real \<Rightarrow> vec3" where
  "divideScalar v s = multiplyScalar v (1 / s)"

definition addScaledVector :: "vec3 \<Rightarrow> vec3 \<Rightarrow> real \<Rightarrow> vec3" where
  "addScaledVector a v s = Vector3 (vx a + vx v * s) (vy a + vy v * s) (vz a + vz v * s)"

definition lengthV :: "vec3 \<Rightarrow> real" where
  "lengthV v = sqrt (vx v * vx v + vy v * vy v + vz v * vz v)"

text \<open>\<open>normalize()\<close> divides by \<open>length() || 1\<close>: the zero vector stays the zero vector.\<close>

definition normalizeV :: "vec3 \<Rightarrow> vec3" where
  "normalizeV v = divideScalar v (if lengthV v = 0 then 1 else lengthV v)"

definition setLength :: "vec3 \<Rightarrow> real \<Rightarrow> vec3" where
  "setLength v l = multiplyScalar (normalizeV v) l"

definition crossVectors :: "vec3 \<Rightarrow> vec3 \<Rightarrow> vec3" where
  "crossVectors a b =
     Vector3 (vy a * vz b - vz a * vy b) (vz a * vx b - vx a * vz b) (vx a * vy b - vy a * vx b)"

text \<open>
  \<open>Vector3.applyQuaternion\<close> computes \<open>q v q*\<close> (quaternion times vector, then times the
  conjugate), in the library releases that offer the global \<open>THREE.OrbitControls\<close> the
  viewer uses.
\<close>

definition applyQuaternion :: "vec3 \<Rightarrow> quat \<Rightarrow> vec3" where
  "applyQuaternion v q =
    (let x = vx v; y = vy v; z = vz v;
         ix = qw q * x + qy q * z - qz q * y;
         iy = qw q * y + qz q * x - qx q * z;
         iz = qw q * z + qx q * y - qy q * x;
         iw = - qx q * x - qy q * y - qz q * z
     in Vector3 (ix * qw q + iw * - qx q + iy * - qz q - iz * - qy q)
                (iy * qw q + iw * - qy q + iz * - qx q - ix * - qz q)
                (iz * qw q + iw * - qz q + ix * - qy q - iy * - qx q))"

definition setFromAxisAngle :: "vec3 \<Rightarrow> real \<Rightarrow> quat" where
  "setFromAxisAngle axis angle =
    (let halfAngle = angle / 2; s = sin halfAngle
     in Quaternion (vx axis * s) (vy axis * s) (vz axis * s) (cos halfAngle))"

definition multiplyQuaternions :: "quat \<Rightarrow> quat \<Rightarrow> quat" where
  "multiplyQuaternions a b =
     Quaternion (qx a * qw b + qw a * qx b + qy a * qz b - qz a * qy b)
                (qy a * qw b + qw a * qy b + qz a * qx b - qx a * qz b)
                (qz a * qw b + qw a * qz b + qx a * qy b - qy a * qx b)
                (qw a * qw b - qx a * qx b - qy a * qy b - qz a * qz b)"

text \<open>\<open>this.premultiply(q)\<close> is \<open>q * this\<close>, \<open>this.multiply(q)\<close> is \<open>this * q\<close>.\<close>

definition premultiply :: "quat \<Rightarrow> quat \<Rightarrow> quat" where
  "premultiply this q = multiplyQuaternions q this"

definition multiplyQ :: "quat \<Rightarrow> quat \<Rightarrow> quat" where
  "multiplyQ this q = multiplyQuaternions this q"

text \<open>\<open>Quaternion.invert()\<close> is the conjugate: the library assumes unit length.\<close>

definition invertQ :: "quat \<Rightarrow> quat" where
  "invertQ q = Quaternion (- qx q) (- qy q) (- qz q) (qw q)"

definition identityQ :: quat where
  "identityQ = Quaternion 0 0 0 1"

definition zeroV :: vec3 where
  "zeroV = Vector3 0 0 0"

text \<open>Squared lengths, used to state and prove the metric facts.\<close>

definition lengthSq :: "vec3 \<Rightarrow> real" where
  "lengthSq v = vx v * vx v + vy v * vy v + vz v * vz v"

definition q_lengthSq :: "quat \<Rightarrow> real" where
  "q_lengthSq q = qx q * qx q + qy q * qy q + qz q * qz q + qw q * qw q"

section \<open>The scene manager's state\<close>

text \<open>
  One record per object of the program. A field that can be \<open>null\<close> is an option. The
  camera's orientation is written only by the library's \<open>lookAt\<close>; the model keeps the
  point last passed to it. The controls count the calls of \<open>controls.update()\<close> in
  \<open>updates\<close>; what a call does to the camera is the subject of the section on the orbit
  controls below.
\<close>

record camera =
  position :: vec3
  up :: vec3
  c_left :: real
  c_right :: real
  c_top :: real
  c_bottom :: real
  aim :: "vec3 option"

record controls =
  target :: vec3
  enableRotate :: bool
  updates :: nat

text \<open>
  Objects of the scene graph are told apart by identity: a mesh or a group gets a number
  when it is created. The two materials are shared objects, so a mesh holds a reference
  and the wireframe flags live in the scene manager's store.
\<close>

datatype node = CoreMesh nat | EdgesGroup nat

datatype mat_ref = DefaultMaterial | SelectedMaterial

record mesh =
  mesh_id :: nat
  geometry :: "vec3 list"
  mesh_name :: string
  material :: "mat_ref option"

record edges =
  edges_id :: nat
  visible :: bool

record group =
  quaternion :: quat
  children :: "node list"

record axes_actor =
  ax_camera :: camera
  axesGroup :: quat
  parentCamera :: "camera option"

record scene =
  camera :: "camera option"
  controls :: "controls option"
  artifactGroup :: "group option"
  core :: "mesh option"
  frustumSize :: real
  rotationBaseSpeed :: real
  rotationGain :: real
  rotationMinMult :: real
  rotationMaxMult :: real
  panBase :: real
  panGain :: real
  panMinMult :: real
  panMaxMult :: real
  orbitGain :: real
  orbitMinMult :: real
  orbitMaxMult :: real
  visualStyle :: string
  featureAngle :: real
  edgesGroup :: "edges option"
  hiddenEdgeLines :: "bool option"
  visibleEdgeLines :: "bool option"
  rotationAnimating :: bool
  rotationCancelToken :: bool
  axesActor :: "axes_actor option"
  wireframe :: "mat_ref \<Rightarrow> bool"
  disposed :: "nat list"
  next_id :: nat

section \<open>Visual styles\<close>

text \<open>
  \<open>if (this._edgesGroup) this._edgesGroup.visible = b\<close> and
  \<open>if (this.core.material) this.core.material.wireframe = b\<close>.
\<close>

definition edges_set_visible :: "bool \<Rightarrow> scene \<Rightarrow> scene" where
  "edges_set_visible b s =
     (case edgesGroup s of
        None \<Rightarrow> s
      | Some e \<Rightarrow> s\<lparr>edgesGroup := Some (e\<lparr>visible := b\<rparr>)\<rparr>)"

definition material_set_wireframe :: "mesh \<Rightarrow> bool \<Rightarrow> scene \<Rightarrow> scene" where
  "material_set_wireframe c b s =
     (case material c of
        None \<Rightarrow> s
      | Some m \<Rightarrow> s\<lparr>wireframe := (wireframe s)(m := b)\<rparr>)"

text \<open>
  The two line objects of the overlay, shown or hidden only inside
  \<open>if (this._edgesGroup) { ... }\<close>.
\<close>

definition edge_lines_set :: "bool \<Rightarrow> bool \<Rightarrow> scene \<Rightarrow> scene" where
  "edge_lines_set hid vis s =
     (case edgesGroup s of
        None \<Rightarrow> s
      | Some e \<Rightarrow>
          s\<lparr>edgesGroup := Some (e\<lparr>visible := True\<rparr>),
            hiddenEdgeLines := (case hiddenEdgeLines s of None \<Rightarrow> None | Some _ \<Rightarrow> Some hid),
            visibleEdgeLines := (case visibleEdgeLines s of None \<Rightarrow> None | Some _ \<Rightarrow> Some vis)\<rparr>)"

text \<open>
  The argument is a string or absent (\<open>undefined\<close>, \<open>null\<close>); the absent value and the
  empty string are falsy, so \<open>style || 'shaded'\<close> stores \<open>'shaded'\<close> for them.
\<close>

definition setVisualStyle :: "string option \<Rightarrow> scene \<Rightarrow> scene" where
  "setVisualStyle style s =
    (let vs = (case style of None \<Rightarrow> ''shaded'' | Some t \<Rightarrow> if t = [] then ''shaded'' else t);
         s1 = s\<lparr>visualStyle := vs\<rparr>
     in case core s1 of
          None \<Rightarrow> s1
        | Some c \<Rightarrow>
            if vs = ''wireframe'' then material_set_wireframe c True (edges_set_visible False s1)
            else if vs = ''shaded-edge'' then edge_lines_set False True (material_set_wireframe c False s1)
            else if vs = ''shaded-hidden'' then edge_lines_set True True (material_set_wireframe c False s1)
            else material_set_wireframe c False (edges_set_visible False s1))"

definition getVisualStyle :: "scene \<Rightarrow> string" where
  "getVisualStyle s = (if visualStyle s = [] then ''shaded'' else visualStyle s)"

text \<open>
  The scene manager as \<open>init()\<close> builds it in a square window, before the first pass of
  the render loop and before any model is loaded.
\<close>

definition init_camera :: camera where
  "init_camera =
     \<lparr>position = multiplyScalar (normalizeV (Vector3 1 1 1)) 10, up = Vector3 0 1 0,
      c_left = -5, c_right = 5, c_top = 5, c_bottom = -5, aim = Some zeroV\<rparr>"

definition init_axes :: axes_actor where
  "init_axes =
     \<lparr>ax_camera = \<lparr>position = Vector3 2 2 2, up = Vector3 0 1 0,
                   c_left = - 1.5, c_right = 1.5, c_top = 1.5, c_bottom = - 1.5,
                   aim = Some zeroV\<rparr>,
      axesGroup = identityQ, parentCamera = None\<rparr>"

definition init_scene :: scene where
  "init_scene =
     \<lparr>camera = Some init_camera,
      controls = Some \<lparr>target = zeroV, enableRotate = False, updates = 0\<rparr>,
      artifactGroup = Some \<lparr>quaternion = identityQ, children = []\<rparr>,
      core = None,
      frustumSize = 10,
      rotationBaseSpeed = 0.008, rotationGain = 1, rotationMinMult = 0.3, rotationMaxMult = 3,
      panBase = 0.65, panGain = 0.25, panMinMult = 0.35, panMaxMult = 1.6,
      orbitGain = 1, orbitMinMult = 0.3, orbitMaxMult = 3,
      visualStyle = ''shaded-edge'', featureAngle = 30,
      edgesGroup = None, hiddenEdgeLines = None, visibleEdgeLines = None,
      rotationAnimating = False, rotationCancelToken = False,
      axesActor = Some init_axes,
      wireframe = (\<lambda>_. False), disposed = [], next_id = 0\<rparr>"

text \<open>A scene with a loaded model and its edge overlay, used to instantiate the theorems.\<close>

definition loaded_scene :: scene where
  "loaded_scene =
     init_scene\<lparr>core := Some \<lparr>mesh_id = 0, geometry = [], mesh_name = ''part'',
                              material = Some DefaultMaterial\<rparr>,
                artifactGroup := Some \<lparr>quaternion = identityQ,
                                       children = [CoreMesh 0, EdgesGroup 1]\<rparr>,
                edgesGroup := Some \<lparr>edges_id = 1, visible = False\<rparr>,
                hiddenEdgeLines := Some True, visibleEdgeLines := Some True,
                next_id := 2\<rparr>"

section \<open>The orbit controls' update\<close>

text \<open>
  \<open>controls.update()\<close> belongs to the library's OrbitControls (the global
  \<open>THREE.OrbitControls\<close> of the script build). \<open>init()\<close> creates the controls for the
  camera after \<open>setIsometricView\<close> has set the camera's up vector to \<open>(0,1,0)\<close>, switches
  the controls' own rotation and damping off, and sets the four limits below; nothing
  assigns them again. Each of the controls' own event handlers ends with a call of
  \<open>update()\<close>, which, damping being off, uses up what the handler entered; so a call from
  the viewer's code finds no rotation, pan or zoom of the controls pending, and works on
  the camera position, the target and the limits alone.
\<close>

definition minDistance :: real where
  "minDistance = 3"

definition maxDistance :: real where
  "maxDistance = 100"

definition minPolarAngle :: real where
  "minPolarAngle = 0 + 1 / 10000"

definition maxPolarAngle :: real where
  "maxPolarAngle = pi - 1 / 10000"

text \<open>
  \<open>Math.atan2(y, x)\<close> and \<open>MathUtils.clamp(value, min, max)\<close>; zeros are the one zero of
  the reals.
\<close>

definition atan2 :: "real \<Rightarrow> real \<Rightarrow> real" where
  "atan2 y x =
     (if 0 < x then arctan (y / x)
      else if x < 0 then (if 0 \<le> y then arctan (y / x) + pi else arctan (y / x) - pi)
      else if 0 < y then pi / 2
      else if y < 0 then - (pi / 2)
      else 0)"

definition clamp :: "real \<Rightarrow> real \<Rightarrow> real \<Rightarrow> real" where
  "clamp v lo hi = max lo (min hi v)"

text \<open>
  The library's \<open>Spherical\<close>: \<open>phi\<close> is the polar angle from the y axis, \<open>theta\<close> the
  azimuth about it from the z axis. \<open>setFromVector3\<close>, \<open>makeSafe\<close> (which keeps \<open>phi\<close>
  between \<open>0.000001\<close> and \<open>pi - 0.000001\<close>) and \<open>Vector3.setFromSpherical\<close>.
\<close>

record spherical =
  radius :: real
  phi :: real
  theta :: real

definition setFromVector3 :: "vec3 \<Rightarrow> spherical" where
  "setFromVector3 v =
    (let r = sqrt (vx v * vx v + vy v * vy v + vz v * vz v)
     in if r = 0 then \<lparr>radius = r, phi = 0, theta = 0\<rparr>
        else \<lparr>radius = r, phi = arccos (clamp (vy v / r) (- 1) 1),
              theta = atan2 (vx v) (vz v)\<rparr>)"

definition makeSafe :: "spherical \<Rightarrow> spherical" where
  "makeSafe sp = sp\<lparr>phi := max (1 / 1000000) (min (pi - 1 / 1000000) (phi sp))\<rparr>"

definition setFromSpherical :: "spherical \<Rightarrow> vec3" where
  "setFromSpherical sp =
    (let sinPhiRadius = sin (phi sp) * radius sp
     in Vector3 (sinPhiRadius * sin (theta sp)) (cos (phi sp) * radius sp)
          (sinPhiRadius * cos (theta sp)))"

text \<open>
  The quaternion \<open>quat\<close> that \<open>update\<close> closes over takes the camera's up vector, as it was
  when the controls were created, to the y axis: \<open>setFromUnitVectors\<close> of \<open>(0,1,0)\<close> and
  \<open>(0,1,0)\<close>, the identity.
\<close>

definition update_quat :: quat where
  "update_quat = identityQ"

text \<open>
  One call of \<open>update()\<close>: the offset of the camera from the target, turned by \<open>quat\<close>, in
  spherical coordinates; the polar angle limited to the two polar limits and made safe;
  the radius limited to the two distances; the camera placed at the target plus the
  offset so limited, turned back, and aimed at the target. The azimuth limits are the
  library's infinite defaults, for which \<open>update\<close> skips the step.
\<close>

definition orbitControls_update :: "camera \<Rightarrow> controls \<Rightarrow> camera \<times> controls" where
  "orbitControls_update cam ct =
    (let offset = applyQuaternion (subV (position cam) (target ct)) update_quat;
         sp = setFromVector3 offset;
         sp1 = sp\<lparr>phi := max minPolarAngle (min maxPolarAngle (phi sp))\<rparr>;
         sp2 = makeSafe sp1;
         sp3 = sp2\<lparr>radius := max minDistance (min maxDistance (radius sp2))\<rparr>;
         offset1 = applyQuaternion (setFromSpherical sp3) (invertQ update_quat)
     in (cam\<lparr>position := addV (target ct) offset1, aim := Some (target ct)\<rparr>,
         ct\<lparr>updates := Suc (updates ct)\<rparr>))"

text \<open>
  \<open>if (this.controls) this.controls.update()\<close> on the scene manager's state. The controls
  move the camera they were created for, which is the scene manager's; in a state with no
  camera the call is counted and moves nothing.
\<close>

definition update_controls :: "scene \<Rightarrow> scene" where
  "update_controls s =
    (case controls s of
       None \<Rightarrow> s
     | Some ct \<Rightarrow>
        (case camera s of
           None \<Rightarrow> s\<lparr>controls := Some (ct\<lparr>updates := Suc (updates ct)\<rparr>)\<rparr>
         | Some cam \<Rightarrow>
            s\<lparr>camera := Some (fst (orbitControls_update cam ct)),
              controls := Some (snd (orbitControls_update cam ct))\<rparr>))"

text \<open>
  \<open>within_limits\<close>: the camera's offset from the target lies within the two distances and
  the two polar limits. A camera within the limits is left where it is by \<open>update()\<close>,
  and every call leaves the camera within the limits (lemmas \<open>orbitControls_update_fixed\<close>
  and \<open>orbitControls_update_establishes\<close> below). The pan step and the render loop call
  \<open>update()\<close> on a camera whose offset from the target their own code has not changed;
  their models count the call (lemma \<open>pan_step_keeps_within_limits\<close> below shows that the
  call has nothing to move).
\<close>

definition within_limits :: "camera \<Rightarrow> controls \<Rightarrow> bool" where
  "within_limits cam ct =
    (let sp = setFromVector3 (subV (position cam) (target ct))
     in minDistance \<le> radius sp \<and> radius sp \<le> maxDistance \<and>
        minPolarAngle \<le> phi sp \<and> phi sp \<le> maxPolarAngle)"

section \<open>Bounding boxes and camera framing\<close>

text \<open>
  The library's \<open>Box3\<close>: a box built from no point is empty, and so is a box whose maximum
  lies below its minimum on some axis; \<open>getCenter\<close> and \<open>getSize\<close> return the zero vector
  for an empty box.
\<close>

datatype box3 = EmptyBox | Box3 vec3 vec3

fun isEmpty :: "box3 \<Rightarrow> bool" where
  "isEmpty EmptyBox = True"
| "isEmpty (Box3 mn mx) = (vx mx < vx mn \<or> vy mx < vy mn \<or> vz mx < vz mn)"

fun getCenter :: "box3 \<Rightarrow> vec3" where
  "getCenter EmptyBox = zeroV"
| "getCenter (Box3 mn mx) =
     (if isEmpty (Box3 mn mx) then zeroV else multiplyScalar (addV mn mx) 0.5)"

fun getSize :: "box3 \<Rightarrow> vec3" where
  "getSize EmptyBox = zeroV"
| "getSize (Box3 mn mx) = (if isEmpty (Box3 mn mx) then zeroV else subV mx mn)"

definition maxDim_of :: "vec3 \<Rightarrow> real" where
  "maxDim_of sz = max (max (vx sz) (vy sz)) (vz sz)"

text \<open>
  \<open>fitModelToView(object, padding)\<close>. The object is represented by what the function
  reads of it: the world bounding box that \<open>Box3.setFromObject\<close> computes; \<open>None\<close> is a
  missing object. \<open>innerWidth\<close> and \<open>innerHeight\<close> are the window's.
\<close>

definition fitModelToView :: "real \<Rightarrow> real \<Rightarrow> box3 option \<Rightarrow> real \<Rightarrow> scene \<Rightarrow> scene" where
  "fitModelToView innerWidth innerHeight object padding s =
    (case object of
       None \<Rightarrow> s
     | Some box \<Rightarrow>
        (case camera s of
           None \<Rightarrow> s
         | Some cam \<Rightarrow>
            let center = getCenter box;
                sz = getSize box;
                maxDim = maxDim_of sz;
                fs = max (1 / 1000000) (maxDim * padding);
                aspect = innerWidth / innerHeight;
                cam1 = cam\<lparr>c_left := - fs * aspect / 2, c_right := fs * aspect / 2,
                          c_top := fs / 2, c_bottom := - fs / 2\<rparr>;
                isoDir = normalizeV (Vector3 1 1 1);
                distance = maxDim * 2.5 + 1.0;
                cam2 = cam1\<lparr>position := addV center (multiplyScalar isoDir distance),
                           up := Vector3 0 1 0\<rparr>;
                s1 = s\<lparr>frustumSize := fs, camera := Some cam2\<rparr>
            in (case controls s1 of
                  None \<Rightarrow> s1
                | Some ct \<Rightarrow>
                    update_controls (s1\<lparr>controls := Some (ct\<lparr>target := center\<rparr>)\<rparr>))))"

text \<open>
  \<open>setPresetView(id, object, duration)\<close>. The switch yields the vector \<open>pos\<close> for the seven
  known ids and returns for every other id. \<open>window.setPresetViewQuaternion\<close> is a hook
  that nothing in the repository installs: when present it is called instead (\<open>None\<close> as
  its result stands for a call that threw, which the empty \<open>catch\<close> swallows).
\<close>

definition preset_pos :: "string \<Rightarrow> vec3 option" where
  "preset_pos ident =
     (if ident = ''isometric'' then Some (multiplyScalar (normalizeV (Vector3 1 1 1)) 10)
      else if ident = ''front'' then Some (multiplyScalar (Vector3 0 0 1) 10)
      else if ident = ''back'' then Some (multiplyScalar (Vector3 0 0 (- 1)) 10)
      else if ident = ''left'' then Some (multiplyScalar (Vector3 (- 1) 0 0) 10)
      else if ident = ''right'' then Some (multiplyScalar (Vector3 1 0 0) 10)
      else if ident = ''top'' then Some (multiplyScalar (Vector3 0 1 0) 10)
      else if ident = ''bottom'' then Some (multiplyScalar (Vector3 0 (- 1) 0) 10)
      else None)"

definition preset_center :: "box3 option \<Rightarrow> scene \<Rightarrow> vec3" where
  "preset_center object s =
     (case object of
        Some box \<Rightarrow> getCenter box
      | None \<Rightarrow> (case controls s of Some ct \<Rightarrow> target ct | None \<Rightarrow> zeroV))"

definition setPresetView_builtin :: "string \<Rightarrow> box3 option \<Rightarrow> scene \<Rightarrow> scene" where
  "setPresetView_builtin ident object s =
    (case camera s of
       None \<Rightarrow> s
     | Some cam \<Rightarrow>
        let center = preset_center object s in
        (case preset_pos ident of
           None \<Rightarrow> s
         | Some pos \<Rightarrow>
            let s1 = s\<lparr>camera := Some (cam\<lparr>position := addV center pos, up := Vector3 0 1 0\<rparr>)\<rparr>
            in (case controls s1 of
                  None \<Rightarrow> s1
                | Some ct \<Rightarrow>
                    update_controls (s1\<lparr>controls := Some (ct\<lparr>target := center\<rparr>)\<rparr>))))"

definition setPresetView ::
  "(string \<Rightarrow> box3 option \<Rightarrow> scene \<Rightarrow> scene option) option \<Rightarrow> string \<Rightarrow> box3 option \<Rightarrow> scene \<Rightarrow> scene"
where
  "setPresetView hook ident object s =
    (case hook of
       None \<Rightarrow> setPresetView_builtin ident object s
     | Some h \<Rightarrow>
        (case h ident object s of
           Some s' \<Rightarrow> s'
         | None \<Rightarrow> setPresetView_builtin ident object s))"

section \<open>The axes widget\<close>

text \<open>
  \<open>AxesActor.syncWithCamera(camera, target)\<close>. The target is absent, a plain vector, or an
  \<open>Object3D\<close>; for an object the function reads its world quaternion (\<open>None\<close> when that
  read throws, which the \<open>catch\<close> answers with the identity). \<open>getWorldQuaternion\<close> is the
  library's reading of the main camera's orientation.
\<close>

datatype sync_target = NoTarget | VectorTarget vec3 | ObjectTarget "quat option"

definition syncWithCamera ::
  "(camera \<Rightarrow> quat) \<Rightarrow> camera option \<Rightarrow> sync_target \<Rightarrow> axes_actor \<Rightarrow> axes_actor"
where
  "syncWithCamera getWorldQuaternion cam tgt a =
    (case cam of
       None \<Rightarrow> a
     | Some c \<Rightarrow>
        let a1 = a\<lparr>parentCamera := Some c\<rparr> in
        (case tgt of
           ObjectTarget qm \<Rightarrow>
             let qAxes = (case qm of
                            Some qModel \<Rightarrow> multiplyQ (invertQ (getWorldQuaternion c)) qModel
                          | None \<Rightarrow> identityQ)
             in a1\<lparr>axesGroup := qAxes,
                   ax_camera := (ax_camera a1)\<lparr>position := Vector3 2 2 2, up := up c,
                                                 aim := Some zeroV\<rparr>\<rparr>
         | _ \<Rightarrow>
             let lookTarget = (case tgt of VectorTarget t \<Rightarrow> t | _ \<Rightarrow> zeroV);
                 direction = normalizeV (subV (position c) lookTarget)
             in a1\<lparr>ax_camera := (ax_camera a1)\<lparr>position := multiplyScalar direction 3,
                                                 up := up c, aim := Some zeroV\<rparr>,
                   axesGroup := identityQ\<rparr>))"

text \<open>
  One pass of the render loop \<open>animate\<close>: the controls are updated (the call is
  counted), the scene is drawn, and the axes widget is synchronized and drawn. Drawing
  changes nothing of the state.
\<close>

definition animate :: "(camera \<Rightarrow> quat) \<Rightarrow> scene \<Rightarrow> scene" where
  "animate getWorldQuaternion s =
    (let s1 = (case controls s of
                 None \<Rightarrow> s
               | Some ct \<Rightarrow> s\<lparr>controls := Some (ct\<lparr>updates := Suc (updates ct)\<rparr>)\<rparr>)
     in (case axesActor s1 of
           None \<Rightarrow> s1
         | Some a \<Rightarrow>
            (case camera s1 of
               None \<Rightarrow> s1
             | Some c \<Rightarrow>
                let tgt = (case controls s1 of Some ct \<Rightarrow> target ct | None \<Rightarrow> zeroV)
                in s1\<lparr>axesActor :=
                        Some (syncWithCamera getWorldQuaternion (Some c) (VectorTarget tgt) a)\<rparr>)))"

section \<open>Pointer-driven navigation\<close>

text \<open>
  A pointer event, as far as the handlers read it; \<open>onCanvas\<close> is the test
  \<open>ev.target === canvas || canvas.contains(ev.target)\<close>. The variables the two handler
  sets close over are the records \<open>drag\<close> (camera orbit) and \<open>pan_drag\<close> (model
  rotation and pan, which also holds \<open>mode\<close> and the constant \<open>rotSpeed\<close>).
\<close>

record pointer_event =
  button :: int
  shiftKey :: bool
  ctrlKey :: bool
  altKey :: bool
  clientX :: real
  clientY :: real
  pointerId :: int
  timeStamp :: real
  onCanvas :: bool

datatype drag_mode = Rotate | Pan

record drag =
  rotating :: bool
  lastX :: real
  lastY :: real
  activePointerId :: "int option"
  lastPointerTime :: "real option"

record pan_drag = drag +
  mode :: "drag_mode option"
  rotSpeed :: real

text \<open>\<open>ev.timeStamp || performance.now()\<close>: a zero time stamp is falsy.\<close>

definition event_now :: "real \<Rightarrow> pointer_event \<Rightarrow> real" where
  "event_now perfNow ev = (if timeStamp ev = 0 then perfNow else timeStamp ev)"

text \<open>\<open>dt = Math.max(1.0, lastPointerTime !== null ? now - lastPointerTime : 16.0)\<close>.\<close>

definition pointer_dt :: "real \<Rightarrow> real option \<Rightarrow> real" where
  "pointer_dt now lastTime = max 1 (case lastTime of Some t \<Rightarrow> now - t | None \<Rightarrow> 16)"

definition pointer_speed :: "real \<Rightarrow> real \<Rightarrow> real \<Rightarrow> real" where
  "pointer_speed dx dy dt = sqrt (dx * dx + dy * dy) / dt"

text \<open>
  \<open>getCameraRight\<close>: the camera's world direction is read from the library
  (\<open>getWorldDirection\<close>, a parameter here), and the right vector is \<open>up x forward\<close>,
  normalized.
\<close>

definition getCameraRight :: "(camera \<Rightarrow> vec3) \<Rightarrow> camera \<Rightarrow> vec3" where
  "getCameraRight getWorldDirection cam =
     normalizeV (crossVectors (up cam) (getWorldDirection cam))"

subsection \<open>Model rotation and pan (\<open>_setupQuaternionRotation\<close>)\<close>

text \<open>The closure as installed: \<open>const rotSpeed = this.rotationBaseSpeed\<close> is read once.\<close>

definition setupQuaternionRotation :: "scene \<Rightarrow> pan_drag" where
  "setupQuaternionRotation s =
     \<lparr>rotating = False, lastX = 0, lastY = 0, activePointerId = None, lastPointerTime = None,
      mode = None, rotSpeed = rotationBaseSpeed s\<rparr>"

definition pan_onPointerDown :: "real \<Rightarrow> pointer_event \<Rightarrow> scene \<Rightarrow> pan_drag \<Rightarrow> pan_drag" where
  "pan_onPointerDown perfNow ev s d =
     (if button ev \<noteq> 1 then d
      else if \<not> shiftKey ev then d
      else if (case controls s of Some ct \<Rightarrow> enableRotate ct | None \<Rightarrow> False) then d
      else d\<lparr>mode := Some Pan, rotating := True, lastX := clientX ev, lastY := clientY ev,
             activePointerId := Some (pointerId ev),
             lastPointerTime := Some (event_now perfNow ev)\<rparr>)"

definition rotate_speedMult :: "scene \<Rightarrow> real \<Rightarrow> real \<Rightarrow> real \<Rightarrow> real" where
  "rotate_speedMult s dx dy dt =
     min (rotationMaxMult s) (max (rotationMinMult s) (1.0 + pointer_speed dx dy dt * rotationGain s))"

definition rotate_q ::
  "(camera \<Rightarrow> vec3) \<Rightarrow> real \<Rightarrow> scene \<Rightarrow> camera \<Rightarrow> real \<Rightarrow> real \<Rightarrow> real \<Rightarrow> quat"
where
  "rotate_q getWorldDirection rotSpeed0 s cam dx dy dt =
    (let rightAxis = getCameraRight getWorldDirection cam;
         upAxis = normalizeV (up cam);
         speedMult = rotate_speedMult s dx dy dt;
         yawAngle = dx * rotSpeed0 * speedMult;
         pitchAngle = dy * rotSpeed0 * speedMult;
         yawQ = setFromAxisAngle upAxis yawAngle;
         pitchQ = setFromAxisAngle rightAxis pitchAngle
     in multiplyQuaternions pitchQ yawQ)"

definition pan_panMult :: "scene \<Rightarrow> real \<Rightarrow> real \<Rightarrow> real \<Rightarrow> real" where
  "pan_panMult s dx dy dt =
     min (panMaxMult s) (max (panMinMult s) (panBase s + pointer_speed dx dy dt * panGain s))"

definition pan_moveX :: "scene \<Rightarrow> real \<Rightarrow> real \<Rightarrow> real \<Rightarrow> real \<Rightarrow> real \<Rightarrow> real" where
  "pan_moveX s w h dx dy dt =
     (let aspect = w / h; worldPerPixelX = (frustumSize s * aspect) / w
      in dx * worldPerPixelX * pan_panMult s dx dy dt)"

definition pan_moveY :: "scene \<Rightarrow> real \<Rightarrow> real \<Rightarrow> real \<Rightarrow> real \<Rightarrow> real" where
  "pan_moveY s h dx dy dt =
     (let worldPerPixelY = frustumSize s / h
      in dy * worldPerPixelY * pan_panMult s dx dy dt)"

definition pan_panOffset ::
  "(camera \<Rightarrow> vec3) \<Rightarrow> scene \<Rightarrow> camera \<Rightarrow> real \<Rightarrow> real \<Rightarrow> real \<Rightarrow> real \<Rightarrow> real \<Rightarrow> vec3"
where
  "pan_panOffset getWorldDirection s cam w h dx dy dt =
    (let right = getCameraRight getWorldDirection cam;
         upv = normalizeV (up cam)
     in addScaledVector (multiplyScalar right (pan_moveX s w h dx dy dt)) upv
          (pan_moveY s h dx dy dt))"

text \<open>
  \<open>onPointerMove\<close> of the rotation and pan handlers; \<open>w\<close> and \<open>h\<close> are the canvas
  rectangle's. The handler has no \<open>try\<close>: with no camera the read of the camera throws
  after the closure variables were updated, and the scene stays as it was. The pan branch
  ends with \<open>controls.update()\<close>, which is counted: the branch leaves the camera's offset
  from the target as it was.
\<close>

definition pan_onPointerMove ::
  "(camera \<Rightarrow> vec3) \<Rightarrow> real \<Rightarrow> real \<Rightarrow> real \<Rightarrow> pointer_event \<Rightarrow> pan_drag \<Rightarrow> scene
     \<Rightarrow> pan_drag \<times> scene"
where
  "pan_onPointerMove getWorldDirection perfNow w h ev d s =
    (if \<not> rotating d then (d, s)
     else if activePointerId d \<noteq> None \<and> activePointerId d \<noteq> Some (pointerId ev) then (d, s)
     else
       let dx = clientX ev - lastX d;
           dy = clientY ev - lastY d;
           now = event_now perfNow ev;
           dt = pointer_dt now (lastPointerTime d);
           d1 = d\<lparr>lastPointerTime := Some now, lastX := clientX ev, lastY := clientY ev\<rparr>
       in (case mode d of
             None \<Rightarrow> (d1, s)
           | Some Rotate \<Rightarrow>
               (case camera s of
                  None \<Rightarrow> (d1, s)
                | Some cam \<Rightarrow>
                    let q = rotate_q getWorldDirection (rotSpeed d) s cam dx dy dt
                    in (d1, case artifactGroup s of
                              None \<Rightarrow> s
                            | Some g \<Rightarrow>
                                s\<lparr>artifactGroup :=
                                    Some (g\<lparr>quaternion := premultiply (quaternion g) q\<rparr>)\<rparr>))
           | Some Pan \<Rightarrow>
               (case camera s of
                  None \<Rightarrow> (d1, s)
                | Some cam \<Rightarrow>
                    let panOffset = pan_panOffset getWorldDirection s cam w h dx dy dt;
                        cam1 = cam\<lparr>position := addV (position cam) panOffset\<rparr>
                    in (d1, case controls s of
                              Some ct \<Rightarrow>
                                s\<lparr>controls := Some (ct\<lparr>target := addV (target ct) panOffset,
                                                         updates := Suc (updates ct)\<rparr>),
                                  camera := Some cam1\<rparr>
                            | None \<Rightarrow> s\<lparr>camera := Some cam1\<rparr>))))"

text \<open>
  \<open>onPointerUp\<close> and \<open>onPointerCancel\<close> of the same handlers: they end the drag and leave
  \<open>mode\<close> as it is.
\<close>

definition pan_onPointerUp :: "pointer_event \<Rightarrow> pan_drag \<Rightarrow> pan_drag" where
  "pan_onPointerUp ev d =
     (if button ev \<noteq> 1 then d
      else if activePointerId d \<noteq> None \<and> activePointerId d \<noteq> Some (pointerId ev) then d
      else d\<lparr>rotating := False, activePointerId := None\<rparr>)"

definition pan_onPointerCancel :: "pointer_event \<Rightarrow> pan_drag \<Rightarrow> pan_drag" where
  "pan_onPointerCancel ev d =
     (if activePointerId d \<noteq> None \<and> activePointerId d = Some (pointerId ev)
      then d\<lparr>rotating := False, activePointerId := None\<rparr>
      else d)"

text \<open>
  The pointer events the browser delivers to these four handlers, each with what its
  handler reads from outside the event (\<open>performance.now()\<close>, and the width and height of
  the canvas rectangle), and a run of the handlers over a list of them.
\<close>

datatype pointer_input =
    PointerDown real pointer_event
  | PointerMove real real real pointer_event
  | PointerUp pointer_event
  | PointerCancel pointer_event

fun pan_handle :: "(camera \<Rightarrow> vec3) \<Rightarrow> pointer_input \<Rightarrow> pan_drag \<times> scene \<Rightarrow> pan_drag \<times> scene" where
  "pan_handle getWorldDirection (PointerDown perfNow ev) (d, s) = (pan_onPointerDown perfNow ev s d, s)"
| "pan_handle getWorldDirection (PointerMove perfNow w h ev) (d, s) =
     pan_onPointerMove getWorldDirection perfNow w h ev d s"
| "pan_handle getWorldDirection (PointerUp ev) (d, s) = (pan_onPointerUp ev d, s)"
| "pan_handle getWorldDirection (PointerCancel ev) (d, s) = (pan_onPointerCancel ev d, s)"

definition pan_run ::
  "(camera \<Rightarrow> vec3) \<Rightarrow> pointer_input list \<Rightarrow> pan_drag \<times> scene \<Rightarrow> pan_drag \<times> scene"
where
  "pan_run getWorldDirection inputs st = foldl (\<lambda>st1 i. pan_handle getWorldDirection i st1) st inputs"

subsection \<open>Camera orbit (\<open>_setupCameraQuaternionOrbit\<close>)\<close>

definition setupCameraQuaternionOrbit :: drag where
  "setupCameraQuaternionOrbit =
     \<lparr>rotating = False, lastX = 0, lastY = 0, activePointerId = None, lastPointerTime = None\<rparr>"

definition orbit_onPointerDown :: "real \<Rightarrow> pointer_event \<Rightarrow> drag \<Rightarrow> drag" where
  "orbit_onPointerDown perfNow ev d =
     (if button ev \<noteq> 1 then d
      else if shiftKey ev then d
      else if \<not> onCanvas ev then d
      else if ctrlKey ev \<or> altKey ev then d
      else d\<lparr>rotating := True, lastX := clientX ev, lastY := clientY ev,
             activePointerId := Some (pointerId ev),
             lastPointerTime := Some (event_now perfNow ev)\<rparr>)"

definition orbit_mult :: "scene \<Rightarrow> real \<Rightarrow> real \<Rightarrow> real \<Rightarrow> real" where
  "orbit_mult s dx dy dt =
     min (orbitMaxMult s) (max (orbitMinMult s) (1.0 + pointer_speed dx dy dt * orbitGain s))"

text \<open>The two angles in radians: \<open>deltaAzimuth * Math.PI / 180.0\<close> and the same for elevation.\<close>

definition orbit_azimuthAngle :: "scene \<Rightarrow> real \<Rightarrow> real \<Rightarrow> real \<Rightarrow> real \<Rightarrow> real" where
  "orbit_azimuthAngle s w dx dy dt =
     (let baseAzimuth = - 100.0 * (dx / w); deltaAzimuth = baseAzimuth * orbit_mult s dx dy dt
      in deltaAzimuth * pi / 180.0)"

definition orbit_elevationAngle :: "scene \<Rightarrow> real \<Rightarrow> real \<Rightarrow> real \<Rightarrow> real \<Rightarrow> real" where
  "orbit_elevationAngle s h dx dy dt =
     (let baseElevation = - 100.0 * (dy / h); deltaElevation = baseElevation * orbit_mult s dx dy dt
      in deltaElevation * pi / 180.0)"

text \<open>The trackball step on the camera, from \<open>const target\<close> to \<open>camera.lookAt(target)\<close>.\<close>

definition orbit_camera :: "real \<Rightarrow> real \<Rightarrow> vec3 \<Rightarrow> camera \<Rightarrow> camera" where
  "orbit_camera azimuthAngle elevationAngle tgt cam =
    (let offset = subV (position cam) tgt;
         distance = lengthV offset;
         viewUp = normalizeV (up cam);
         forward = normalizeV offset;
         azimuthQuat = setFromAxisAngle viewUp azimuthAngle;
         right = normalizeV (crossVectors viewUp forward);
         elevationQuat = setFromAxisAngle right elevationAngle;
         combinedQuat = multiplyQuaternions elevationQuat azimuthQuat;
         offset1 = applyQuaternion offset combinedQuat;
         viewUp1 = applyQuaternion viewUp elevationQuat;
         offset2 = setLength offset1 distance
     in cam\<lparr>up := viewUp1, position := addV tgt offset2, aim := Some tgt\<rparr>)"

text \<open>
  \<open>onPointerMove\<close> of the orbit handler, which ends with \<open>controls.update()\<close>. Its body
  runs in a \<open>try\<close>: with no camera the read of the camera throws after the closure
  variables were updated, the \<open>catch\<close> logs the error, and the scene stays as it was.
\<close>

definition orbit_onPointerMove ::
  "real \<Rightarrow> real \<Rightarrow> real \<Rightarrow> pointer_event \<Rightarrow> drag \<Rightarrow> scene \<Rightarrow> drag \<times> scene"
where
  "orbit_onPointerMove perfNow w h ev d s =
    (if \<not> rotating d then (d, s)
     else if activePointerId d \<noteq> None \<and> activePointerId d \<noteq> Some (pointerId ev) then (d, s)
     else
       let dx = clientX ev - lastX d;
           dy = clientY ev - lastY d;
           now = event_now perfNow ev;
           dt = pointer_dt now (lastPointerTime d);
           d1 = d\<lparr>lastPointerTime := Some now, lastX := clientX ev, lastY := clientY ev\<rparr>
       in (case camera s of
             None \<Rightarrow> (d1, s)
           | Some cam \<Rightarrow>
               let tgt = (case controls s of Some ct \<Rightarrow> target ct | None \<Rightarrow> zeroV);
                   cam1 = orbit_camera (orbit_azimuthAngle s w dx dy dt)
                            (orbit_elevationAngle s h dx dy dt) tgt cam;
                   s1 = s\<lparr>camera := Some cam1\<rparr>
               in (d1, update_controls s1)))"

text \<open>
  The rotation the specification describes for a rotate-mode move, written after its
  words: the multiplier \<open>m\<close> and \<open>q = pitchQ * yawQ\<close> with both angles taken from the scene
  manager's current \<open>rotationBaseSpeed\<close>.
\<close>

definition spec_rotate_m :: "scene \<Rightarrow> real \<Rightarrow> real \<Rightarrow> real \<Rightarrow> real" where
  "spec_rotate_m s dx dy dt =
     min (rotationMaxMult s)
       (max (rotationMinMult s) (1 + (sqrt (dx\<^sup>2 + dy\<^sup>2) / dt) * rotationGain s))"

definition spec_rotate_q :: "vec3 \<Rightarrow> vec3 \<Rightarrow> scene \<Rightarrow> real \<Rightarrow> real \<Rightarrow> real \<Rightarrow> quat" where
  "spec_rotate_q upv forward s dx dy dt =
     multiplyQuaternions
       (setFromAxisAngle (normalizeV (crossVectors upv forward))
          (dy * rotationBaseSpeed s * spec_rotate_m s dx dy dt))
       (setFromAxisAngle (normalizeV upv) (dx * rotationBaseSpeed s * spec_rotate_m s dx dy dt))"

section \<open>Rotating the model by an angle\<close>

text \<open>
  \<open>rotateModelByDegrees(degrees, axis, duration, space)\<close>. The axis is a name or a vector;
  the switch on \<open>(axis || 'y').toString().toLowerCase()\<close> takes \<open>'x'\<close> and \<open>'z'\<close> in either
  case and sends every other name to the y axis.
\<close>

datatype axis_arg = AxisName string | AxisVector vec3

definition axis_is :: "string \<Rightarrow> string \<Rightarrow> string \<Rightarrow> bool" where
  "axis_is a lower upper = (a = lower \<or> a = upper)"

definition axisLocal_of :: "axis_arg \<Rightarrow> vec3" where
  "axisLocal_of axis =
     (case axis of
        AxisVector v \<Rightarrow> normalizeV v
      | AxisName a \<Rightarrow>
          if axis_is a ''x'' ''X'' then Vector3 1 0 0
          else if axis_is a ''z'' ''Z'' then Vector3 0 0 1
          else Vector3 0 1 0)"

definition axisWorld_of :: "(camera \<Rightarrow> vec3) \<Rightarrow> axis_arg \<Rightarrow> string \<Rightarrow> scene \<Rightarrow> vec3" where
  "axisWorld_of getWorldDirection axis space s =
    (let axisLocal = axisLocal_of axis in
     if space = ''view'' \<and> camera s \<noteq> None then
       (case camera s of
          None \<Rightarrow> normalizeV axisLocal
        | Some cam \<Rightarrow>
           (case axis of
              AxisVector v \<Rightarrow> normalizeV v
            | AxisName a \<Rightarrow>
                if axis_is a ''x'' ''X''
                then normalizeV (crossVectors (getWorldDirection cam) (up cam))
                else if axis_is a ''z'' ''Z'' then normalizeV (getWorldDirection cam)
                else normalizeV (up cam)))
     else if space = ''world'' then normalizeV axisLocal
     else if space = ''local'' then
       normalizeV (applyQuaternion axisLocal
         (case artifactGroup s of Some g \<Rightarrow> quaternion g | None \<Rightarrow> identityQ))
     else normalizeV axisLocal)"

text \<open>
  An animated rotation leaves a pending animation behind: the values its \<open>step\<close> callback
  closes over. \<open>performance.now()\<close> at the start is the parameter \<open>perfNow\<close>.
\<close>

record animation =
  startQ :: quat
  endQ :: quat
  startTime :: real
  duration :: real

definition rotateModelByDegrees ::
  "(camera \<Rightarrow> vec3) \<Rightarrow> real \<Rightarrow> real \<Rightarrow> axis_arg \<Rightarrow> real \<Rightarrow> string \<Rightarrow> scene
     \<Rightarrow> scene \<times> animation option"
where
  "rotateModelByDegrees getWorldDirection perfNow degrees axis dur space s =
    (case artifactGroup s of
       None \<Rightarrow> (s, None)
     | Some g \<Rightarrow>
        let s1 = (if rotationAnimating s then s\<lparr>rotationCancelToken := True\<rparr> else s);
            s2 = s1\<lparr>rotationAnimating := True, rotationCancelToken := False\<rparr>;
            axisWorld = axisWorld_of getWorldDirection axis space s;
            totalAngle = (degrees * pi) / 180
        in if dur \<le> 0 then
             let rotQ = setFromAxisAngle axisWorld totalAngle;
                 q1 = (if space = ''local'' then multiplyQ (quaternion g) rotQ
                       else premultiply (quaternion g) rotQ)
             in (s2\<lparr>artifactGroup := Some (g\<lparr>quaternion := q1\<rparr>), rotationAnimating := False\<rparr>,
                 None)
           else
             let q0 = quaternion g;
                 rotQForEnd = setFromAxisAngle axisWorld totalAngle;
                 q1 = (if space = ''local'' then multiplyQ q0 rotQForEnd
                       else multiplyQ rotQForEnd q0)
             in (s2, Some \<lparr>startQ = q0, endQ = q1, startTime = perfNow, duration = dur\<rparr>))"

text \<open>
  One call of the animation's \<open>step(now)\<close>; the Boolean says whether it asked for another
  frame. \<open>slerp\<close> is the library's \<open>Quaternion.slerp\<close>. With no artifact group the write
  to its quaternion throws and the animation ends.
\<close>

definition anim_step ::
  "(quat \<Rightarrow> quat \<Rightarrow> real \<Rightarrow> quat) \<Rightarrow> animation \<Rightarrow> real \<Rightarrow> scene \<Rightarrow> scene \<times> bool"
where
  "anim_step slerp a now s =
    (if rotationCancelToken s
     then (s\<lparr>rotationAnimating := False, rotationCancelToken := False\<rparr>, False)
     else
       let elapsed = now - startTime a;
           t0 = min 1.0 (elapsed / duration a);
           t = (if t0 < 0.5 then 2 * t0 * t0 else - 1 + (4 - 2 * t0) * t0)
       in (case artifactGroup s of
             None \<Rightarrow> (s, False)
           | Some g \<Rightarrow>
               let s1 = s\<lparr>artifactGroup :=
                           Some (g\<lparr>quaternion := slerp (startQ a) (endQ a) t\<rparr>)\<rparr>
               in if elapsed < duration a then (s1, True)
                  else (s1\<lparr>artifactGroup := Some (g\<lparr>quaternion := endQ a\<rparr>),
                           rotationAnimating := False\<rparr>, False)))"

text \<open>
  The frames the browser delivers, as the list of their time stamps: \<open>step\<close> runs on each
  while it keeps asking for the next one. The Boolean of the result says whether the
  animation is still pending when the list is used up.
\<close>

fun run_animation ::
  "(quat \<Rightarrow> quat \<Rightarrow> real \<Rightarrow> quat) \<Rightarrow> animation \<Rightarrow> real list \<Rightarrow> scene \<Rightarrow> scene \<times> bool"
where
  "run_animation slerp a [] s = (s, True)"
| "run_animation slerp a (now # frames) s =
     (case anim_step slerp a now s of
        (s1, True) \<Rightarrow> run_animation slerp a frames s1
      | (s1, False) \<Rightarrow> (s1, False))"

text \<open>
  The rotation as the specification words it. The axis an argument names: the coordinate
  axis for the names \<open>x\<close>, \<open>y\<close> and \<open>z\<close> (in either case), and the direction of a vector
  given as the axis. A vector \<open>v\<close> transformed by a quaternion \<open>q\<close> is the vector part of
  \<open>q v q*\<close>. The axis-angle quaternion of an angle \<open>a\<close> about an axis is
  \<open>(sin(a/2) * n, cos(a/2))\<close> for the direction \<open>n\<close> of the axis, the axis divided by its
  length (the zero vector has no direction, and the quotient is the zero vector then);
  \<open>rotQ\<close> is that quaternion for \<open>degrees * pi / 180\<close>.
\<close>

definition spec_named_axis :: "axis_arg \<Rightarrow> vec3 option" where
  "spec_named_axis axis =
     (case axis of
        AxisVector v \<Rightarrow> Some (Vector3 (vx v / lengthV v) (vy v / lengthV v) (vz v / lengthV v))
      | AxisName a \<Rightarrow>
          if a = ''x'' \<or> a = ''X'' then Some (Vector3 1 0 0)
          else if a = ''y'' \<or> a = ''Y'' then Some (Vector3 0 1 0)
          else if a = ''z'' \<or> a = ''Z'' then Some (Vector3 0 0 1)
          else None)"

definition spec_transform :: "quat \<Rightarrow> vec3 \<Rightarrow> vec3" where
  "spec_transform q v =
    (let p = multiplyQuaternions (multiplyQuaternions q (Quaternion (vx v) (vy v) (vz v) 0))
               (Quaternion (- qx q) (- qy q) (- qz q) (qw q))
     in Vector3 (qx p) (qy p) (qz p))"

definition spec_axis_angle :: "vec3 \<Rightarrow> real \<Rightarrow> quat" where
  "spec_axis_angle n a =
     Quaternion (sin (a / 2) * (vx n / lengthV n)) (sin (a / 2) * (vy n / lengthV n))
       (sin (a / 2) * (vz n / lengthV n)) (cos (a / 2))"

definition spec_rotQ :: "real \<Rightarrow> vec3 \<Rightarrow> quat" where
  "spec_rotQ degrees n = spec_axis_angle n (degrees * pi / 180)"

section \<open>Loading a model\<close>











text \<open>
  What a load gets from outside: the parser's result (\<open>None\<close> when \<open>STLLoader.parse\<close>
  throws), the file's name, whether the edge overlay can be built, the world bounding box
  of the new mesh as \<open>fitModelToView\<close> will read it, and the window's size.
\<close>

record load_env =
  parsed :: "vec3 list option"
  fileName :: string
  edgesBuilt :: bool
  coreWorldBox :: box3
  innerWidth :: real
  innerHeight :: real













section \<open>The settings panel\<close>

text \<open>
  The five inputs of the settings form, each with the text it holds, or \<open>None\<close> when
  \<open>document.getElementById\<close> finds no such element. An input is taken to hold whatever
  text is assigned to it. The document's styles, the panel's visibility, the console line
  and the calls into the scene manager that \<open>applySettings\<close> and \<open>loadSettings\<close> also make
  are not part of the model.
\<close>

record settings_form =
  setting_bgcolor :: "string option"
  setting_font :: "string option"
  setting_fontsize :: "string option"
  setting_mousemode :: "string option"
  setting_featureangle :: "string option"

text \<open>
  \<open>Number(text)\<close> is a parameter of the model (\<open>toNumber\<close>); its result is a finite number
  or one of \<open>NaN\<close>, \<open>Infinity\<close>, \<open>-Infinity\<close>. \<open>JSON.stringify\<close> writes a finite number as a
  numeral that \<open>JSON.parse\<close> reads back as the same number, and writes \<open>null\<close> for the
  others.
\<close>

datatype jnum = Num real | NonFinite

datatype json = JNumber real | JNull

text \<open>
  The object \<open>cfg\<close> that \<open>applySettings\<close> builds, and the object \<open>saved\<close> that
  \<open>loadSettings\<close> parses: a key is absent (\<open>None\<close>) or holds a string, for \<open>featureAngle\<close>
  a number or \<open>null\<close>.
\<close>

record cfg =
  cfg_bgcolor :: "string option"
  cfg_font :: "string option"
  cfg_fontsize :: "string option"
  cfg_mousemode :: "string option"
  cfg_featureAngle :: "jnum option"

record saved =
  saved_bgcolor :: "string option"
  saved_font :: "string option"
  saved_fontsize :: "string option"
  saved_mousemode :: "string option"
  saved_featureAngle :: "json option"

text \<open>
  An item of \<open>localStorage\<close>: a JSON text that parses to such an object, or a text on which
  \<open>JSON.parse\<close> or the first property read throws.
\<close>

datatype stored = Doc saved | Unparsable

type_synonym storage = "string \<Rightarrow> stored option"

definition stringify :: "cfg \<Rightarrow> saved" where
  "stringify c =
     \<lparr>saved_bgcolor = cfg_bgcolor c, saved_font = cfg_font c, saved_fontsize = cfg_fontsize c,
      saved_mousemode = cfg_mousemode c,
      saved_featureAngle = map_option (\<lambda>n. case n of Num r \<Rightarrow> JNumber r | NonFinite \<Rightarrow> JNull)
                       (cfg_featureAngle c)\<rparr>"

text \<open>\<open>Number(featureangle.value || 0)\<close>: the empty text is falsy and gives 0.\<close>

definition featureAngle_of :: "(string \<Rightarrow> jnum) \<Rightarrow> string \<Rightarrow> jnum" where
  "featureAngle_of toNumber v = (if v = [] then Num 0 else toNumber v)"

definition applySettings_cfg :: "(string \<Rightarrow> jnum) \<Rightarrow> settings_form \<Rightarrow> cfg" where
  "applySettings_cfg toNumber f =
     \<lparr>cfg_bgcolor = setting_bgcolor f, cfg_font = setting_font f,
      cfg_fontsize = setting_fontsize f, cfg_mousemode = setting_mousemode f,
      cfg_featureAngle = map_option (featureAngle_of toNumber) (setting_featureangle f)\<rparr>"

text \<open>
  \<open>applySettings\<close>, as far as the form and the storage go: the form is read, not written;
  \<open>setItemOk\<close> says whether \<open>localStorage.setItem\<close> succeeds (its exception is swallowed).
\<close>

definition applySettings :: "(string \<Rightarrow> jnum) \<Rightarrow> bool \<Rightarrow> settings_form \<Rightarrow> storage \<Rightarrow> storage" where
  "applySettings toNumber setItemOk f st =
     (if setItemOk
      then st(''viewer.settings'' \<mapsto> Doc (stringify (applySettings_cfg toNumber f)))
      else st)"

text \<open>A saved string is written back when it is truthy, and the input exists.\<close>

definition write_back :: "string option \<Rightarrow> string option \<Rightarrow> string option" where
  "write_back field savedValue =
     (case savedValue of
        None \<Rightarrow> field
      | Some v \<Rightarrow> if v = [] then field else (case field of None \<Rightarrow> None | Some _ \<Rightarrow> Some v))"

text \<open>
  \<open>fa.value = saved.featureAngle\<close> whenever the key is not \<open>undefined\<close>: a number is turned
  into its text by the input (\<open>numberToString\<close>, a parameter), \<open>null\<close> clears the input.
\<close>

definition write_back_angle :: "(real \<Rightarrow> string) \<Rightarrow> string option \<Rightarrow> json option \<Rightarrow> string option" where
  "write_back_angle numberToString field savedValue =
     (case savedValue of
        None \<Rightarrow> field
      | Some j \<Rightarrow>
         (case field of
            None \<Rightarrow> None
          | Some _ \<Rightarrow> Some (case j of JNumber r \<Rightarrow> numberToString r | JNull \<Rightarrow> [])))"

text \<open>
  \<open>loadSettings\<close>: a missing item is read as \<open>'{}'\<close>, an unparsable one throws into the
  empty \<open>catch\<close>.
\<close>

definition loadSettings :: "(real \<Rightarrow> string) \<Rightarrow> storage \<Rightarrow> settings_form \<Rightarrow> settings_form" where
  "loadSettings numberToString st f =
     (case st ''viewer.settings'' of
        None \<Rightarrow> f
      | Some Unparsable \<Rightarrow> f
      | Some (Doc sv) \<Rightarrow>
         f\<lparr>setting_bgcolor := write_back (setting_bgcolor f) (saved_bgcolor sv),
           setting_font := write_back (setting_font f) (saved_font sv),
           setting_fontsize := write_back (setting_fontsize f) (saved_fontsize sv),
           setting_mousemode := write_back (setting_mousemode f) (saved_mousemode sv),
           setting_featureangle :=
             write_back_angle numberToString (setting_featureangle f) (saved_featureAngle sv)\<rparr>)"

text \<open>The form \<open>resetSettings\<close> fills in, and the same form with the font size cleared.\<close>

definition default_form :: settings_form where
  "default_form =
     \<lparr>setting_bgcolor = Some ''#8a8888'',
      setting_font = Some ''Segoe UI, Roboto, Helvetica Neue, Arial, sans-serif'',
      setting_fontsize = Some ''14'', setting_mousemode = Some ''Default'',
      setting_featureangle = Some ''30''\<rparr>"

definition cleared_fontsize_form :: settings_form where
  "cleared_fontsize_form = default_form\<lparr>setting_fontsize := Some []\<rparr>"

text \<open>A reading and a writing of numbers that agree on 30, to instantiate the parameters.\<close>

definition toNumber_30 :: "string \<Rightarrow> jnum" where
  "toNumber_30 v = (if v = ''30'' then Num 30 else NonFinite)"

definition numberToString_30 :: "real \<Rightarrow> string" where
  "numberToString_30 r = (if r = 30 then ''30'' else [])"

text \<open>The seven preset ids with their unit directions, for stating the preset theorem.\<close>

definition known_presets :: "(string \<times> vec3) list" where
  "known_presets =
     [(''isometric'', normalizeV (Vector3 1 1 1)), (''front'', Vector3 0 0 1),
      (''back'', Vector3 0 0 (- 1)), (''left'', Vector3 (- 1) 0 0), (''right'', Vector3 1 0 0),
      (''top'', Vector3 0 1 0), (''bottom'', Vector3 0 (- 1) 0)]"

section \<open>Theorems\<close>

subsection \<open>Vector and quaternion facts\<close>

lemma lengthV_lengthSq: "lengthV v = sqrt (lengthSq v)"
  by (simp add: lengthV_def lengthSq_def)

lemma lengthSq_nonneg: "0 \<le> lengthSq v"
  by (simp add: lengthSq_def)

lemma lengthSq_multiplyScalar: "lengthSq (multiplyScalar v k) = k * k * lengthSq v"
  by (simp add: lengthSq_def multiplyScalar_def algebra_simps)

lemma lengthSq_zero_iff: "lengthSq v = 0 \<longleftrightarrow> v = zeroV"
proof
  assume z: "lengthSq v = 0"
  have a: "0 \<le> vx v * vx v + vy v * vy v" by simp
  have b: "0 \<le> vz v * vz v" by simp
  have "vx v * vx v + vy v * vy v + vz v * vz v = 0" using z by (simp add: lengthSq_def)
  then have "vx v * vx v + vy v * vy v = 0 \<and> vz v * vz v = 0"
    using add_nonneg_eq_0_iff[OF a b] by simp
  then have "vx v = 0 \<and> vy v = 0 \<and> vz v = 0" by simp
  then show "v = zeroV" by (cases v) (simp add: zeroV_def)
next
  assume "v = zeroV" then show "lengthSq v = 0" by (simp add: zeroV_def lengthSq_def)
qed

lemma lengthSq_normalizeV:
  assumes "lengthSq v \<noteq> 0"
  shows "lengthSq (normalizeV v) = 1"
proof -
  have pos: "0 < lengthSq v" using assms lengthSq_nonneg[of v] by simp
  then have l: "lengthV v \<noteq> 0" by (simp add: lengthV_lengthSq)
  have "lengthSq (normalizeV v) = (1 / lengthV v) * (1 / lengthV v) * lengthSq v"
    using l by (simp add: normalizeV_def divideScalar_def lengthSq_multiplyScalar)
  also have "\<dots> = 1" using pos by (simp add: lengthV_lengthSq)
  finally show ?thesis .
qed

lemma normalizeV_zero: "lengthSq v = 0 \<Longrightarrow> normalizeV v = v"
  by (cases v) (simp add: normalizeV_def divideScalar_def multiplyScalar_def lengthV_lengthSq)

lemma lengthV_normalizeV: "lengthSq v \<noteq> 0 \<Longrightarrow> lengthV (normalizeV v) = 1"
  by (simp add: lengthV_lengthSq lengthSq_normalizeV)

lemma lengthV_setLength:
  assumes "lengthSq v \<noteq> 0" "0 \<le> d"
  shows "lengthV (setLength v d) = d"
proof -
  have "lengthSq (setLength v d) = d * d"
    using assms(1) by (simp add: setLength_def lengthSq_multiplyScalar lengthSq_normalizeV)
  then show ?thesis using assms(2) by (simp add: lengthV_lengthSq)
qed

lemma lengthSq_applyQuaternion:
  "lengthSq (applyQuaternion v q) = q_lengthSq q * q_lengthSq q * lengthSq v"
  by (cases v; cases q)
     (simp add: lengthSq_def applyQuaternion_def q_lengthSq_def Let_def algebra_simps)

lemma q_lengthSq_multiplyQuaternions:
  "q_lengthSq (multiplyQuaternions a b) = q_lengthSq a * q_lengthSq b"
  by (cases a; cases b) (simp add: multiplyQuaternions_def q_lengthSq_def algebra_simps)

lemma q_lengthSq_setFromAxisAngle:
  "q_lengthSq (setFromAxisAngle a t) = lengthSq a * (sin (t / 2))\<^sup>2 + (cos (t / 2))\<^sup>2"
  by (simp add: q_lengthSq_def setFromAxisAngle_def Let_def lengthSq_def power2_eq_square
      algebra_simps)

lemma subV_addV: "subV (addV t v) t = v"
  by (cases v) (simp add: subV_def addV_def)

lemma multiplyQuaternions_invertQ:
  "multiplyQuaternions q (multiplyQuaternions (invertQ q) m) =
     Quaternion (q_lengthSq q * qx m) (q_lengthSq q * qy m) (q_lengthSq q * qz m)
       (q_lengthSq q * qw m)"
  by (cases q; cases m)
     (simp add: multiplyQuaternions_def invertQ_def q_lengthSq_def algebra_simps)

lemma lengthSq_111: "lengthSq (Vector3 1 1 1) \<noteq> 0"
  by (simp add: lengthSq_def)

subsection \<open>The orbit controls' update\<close>

lemma sqrt_quot:
  fixes x y :: real
  assumes "x \<noteq> 0"
  shows "sqrt (1 + (y / x)\<^sup>2) = sqrt (x\<^sup>2 + y\<^sup>2) / \<bar>x\<bar>"
proof -
  have "1 + (y / x)\<^sup>2 = (x\<^sup>2 + y\<^sup>2) / x\<^sup>2"
    using assms by (simp add: field_simps power2_eq_square)
  then show ?thesis by (simp add: real_sqrt_divide)
qed

lemma atan2_sin_cos:
  fixes x y :: real
  assumes "x \<noteq> 0 \<or> y \<noteq> 0"
  shows "sin (atan2 y x) = y / sqrt (x\<^sup>2 + y\<^sup>2) \<and> cos (atan2 y x) = x / sqrt (x\<^sup>2 + y\<^sup>2)"
proof -
  consider (pos) "0 < x" | (neg) "x < 0" | (zp) "x = 0" "0 < y" | (zn) "x = 0" "y < 0"
    using assms by linarith
  then show ?thesis
  proof cases
    case pos
    then have "atan2 y x = arctan (y / x)" by (simp add: atan2_def)
    moreover have "sqrt (1 + (y / x)\<^sup>2) = sqrt (x\<^sup>2 + y\<^sup>2) / x"
      using sqrt_quot[of x y] pos by simp
    ultimately show ?thesis using pos by (simp add: sin_arctan cos_arctan)
  next
    case neg
    have s: "sqrt (1 + (y / x)\<^sup>2) = sqrt (x\<^sup>2 + y\<^sup>2) / (- x)"
      using sqrt_quot[of x y] neg by simp
    have "sin (atan2 y x) = - sin (arctan (y / x)) \<and> cos (atan2 y x) = - cos (arctan (y / x))"
      using neg by (simp add: atan2_def)
    then show ?thesis using neg s by (simp add: sin_arctan cos_arctan)
  next
    case zp
    then show ?thesis by (simp add: atan2_def)
  next
    case zn
    then show ?thesis by (simp add: atan2_def)
  qed
qed

lemma sphere_sq:
  fixes r sp cp st ct :: real
  assumes "sp * sp + cp * cp = 1" "st * st + ct * ct = 1"
  shows "(sp * r * st) * (sp * r * st) + (cp * r) * (cp * r) + (sp * r * ct) * (sp * r * ct) = r * r"
proof -
  have "(sp * r * st) * (sp * r * st) + (cp * r) * (cp * r) + (sp * r * ct) * (sp * r * ct)
      = r * r * (sp * sp * (st * st + ct * ct) + cp * cp)"
    by (simp add: algebra_simps)
  also have "\<dots> = r * r" using assms by simp
  finally show ?thesis .
qed

lemma sin_cos_sq: "sin (a::real) * sin a + cos a * cos a = 1"
  using sin_cos_squared_add[of a] by (simp add: power2_eq_square)

lemma lengthV_setFromSpherical: "lengthV (setFromSpherical sp) = \<bar>radius sp\<bar>"
proof -
  have "lengthV (setFromSpherical sp) = sqrt (radius sp * radius sp)"
    unfolding lengthV_def setFromSpherical_def Let_def vec3.sel
    using sphere_sq[OF sin_cos_sq sin_cos_sq, of "phi sp" "radius sp" "theta sp"] by simp
  then show ?thesis by simp
qed

lemma lengthV_sq: "lengthV v * lengthV v = lengthSq v"
proof -
  have "0 \<le> lengthSq v" by (simp add: lengthSq_def)
  then show ?thesis unfolding lengthV_def lengthSq_def by simp
qed

lemma spherical_roundtrip:
  assumes nz: "lengthSq v \<noteq> 0"
  shows "setFromSpherical ((setFromVector3 v)\<lparr>radius := k\<rparr>) = multiplyScalar v (k / lengthV v)"
proof -
  define r where "r = lengthV v"
  define x where "x = vx v"
  define y where "y = vy v"
  define z where "z = vz v"
  have rr: "r * r = x * x + y * y + z * z"
    unfolding r_def x_def y_def z_def using lengthV_sq[of v] by (simp add: lengthSq_def)
  have r0: "0 \<le> r" unfolding r_def lengthV_def by (simp add: lengthSq_def)
  have rnz: "r \<noteq> 0" using nz rr by (auto simp add: lengthSq_def x_def y_def z_def)
  then have rpos: "0 < r" using r0 by simp
  have sv: "setFromVector3 v = \<lparr>radius = r, phi = arccos (clamp (y / r) (- 1) 1), theta = atan2 x z\<rparr>"
    using rnz unfolding setFromVector3_def Let_def r_def lengthV_def x_def y_def z_def by simp
  have "y * y \<le> r * r" using rr by (simp add: )
  then have "\<bar>y\<bar> \<le> r" using r0 by (metis abs_le_square_iff abs_of_nonneg power2_eq_square)
  then have t: "\<bar>y / r\<bar> \<le> 1" using rpos by simp
  from t have tb: "y / r \<le> 1" "- 1 \<le> y / r" by linarith+
  then have cl: "clamp (y / r) (- 1) 1 = y / r" unfolding clamp_def by linarith
  have cphi: "cos (arccos (y / r)) = y / r" using t by (rule cos_arccos_abs)
  have "x\<^sup>2 + z\<^sup>2 = r\<^sup>2 - y\<^sup>2" using rr by (simp add: power2_eq_square)
  then have "(x\<^sup>2 + z\<^sup>2) / r\<^sup>2 = r\<^sup>2 / r\<^sup>2 - y\<^sup>2 / r\<^sup>2"
    by (simp add: diff_divide_distrib)
  then have "1 - (y / r)\<^sup>2 = (x\<^sup>2 + z\<^sup>2) / r\<^sup>2"
    using rnz by (simp add: power_divide)
  then have sphi: "sin (arccos (y / r)) = sqrt (z\<^sup>2 + x\<^sup>2) / r"
    using sin_arccos_abs[OF t] r0 by (simp add: real_sqrt_divide add.commute)
  have sx: "sin (arccos (y / r)) * k * sin (atan2 x z) = x * (k / r)
      \<and> sin (arccos (y / r)) * k * cos (atan2 x z) = z * (k / r)"
  proof (cases "z \<noteq> 0 \<or> x \<noteq> 0")
    case True
    have p: "sqrt (z\<^sup>2 + x\<^sup>2) \<noteq> 0" using True
      by (metis power2_eq_square real_sqrt_eq_zero_cancel_iff sum_squares_eq_zero_iff)
    from atan2_sin_cos[OF True] p show ?thesis by (simp add: sphi)
  next
    case False
    then show ?thesis by (simp add: sphi)
  qed
  show ?thesis
    unfolding sv setFromSpherical_def Let_def multiplyScalar_def cl
    using sx cphi by (simp add: x_def y_def z_def r_def)
qed


lemma applyQuaternion_identityQ: "applyQuaternion v identityQ = v"
  by (simp add: applyQuaternion_def identityQ_def Let_def)

lemma invertQ_identityQ: "invertQ identityQ = identityQ"
  by (simp add: invertQ_def identityQ_def)

lemma radius_setFromVector3: "radius (setFromVector3 v) = lengthV v"
  by (simp add: setFromVector3_def Let_def lengthV_def)

lemma orbitControls_update_frame:
  "target (snd (orbitControls_update cam ct)) = target ct \<and>
   enableRotate (snd (orbitControls_update cam ct)) = enableRotate ct \<and>
   updates (snd (orbitControls_update cam ct)) = Suc (updates ct) \<and>
   up (fst (orbitControls_update cam ct)) = up cam \<and>
   aim (fst (orbitControls_update cam ct)) = Some (target ct) \<and>
   c_left (fst (orbitControls_update cam ct)) = c_left cam \<and>
   c_right (fst (orbitControls_update cam ct)) = c_right cam \<and>
   c_top (fst (orbitControls_update cam ct)) = c_top cam \<and>
   c_bottom (fst (orbitControls_update cam ct)) = c_bottom cam"
  by (simp add: orbitControls_update_def Let_def)

lemma orbitControls_update_distance:
  "lengthV (subV (position (fst (orbitControls_update cam ct))) (target ct))
     = max minDistance (min maxDistance (lengthV (subV (position cam) (target ct))))"
proof -
  have "0 \<le> max minDistance (min maxDistance (lengthV (subV (position cam) (target ct))))"
    by (simp add: minDistance_def)
  then show ?thesis
    by (simp add: orbitControls_update_def Let_def update_quat_def applyQuaternion_identityQ
        invertQ_identityQ subV_addV lengthV_setFromSpherical makeSafe_def radius_setFromVector3)
qed

lemma orbitControls_update_within:
  "minDistance \<le> lengthV (subV (position (fst (orbitControls_update cam ct))) (target ct)) \<and>
   lengthV (subV (position (fst (orbitControls_update cam ct))) (target ct)) \<le> maxDistance"
  unfolding orbitControls_update_distance by (simp add: minDistance_def maxDistance_def)

lemma polar_within:
  assumes "- (sqrt 3 / 2) \<le> t" "t \<le> sqrt 3 / 2"
  shows "minPolarAngle \<le> arccos t \<and> arccos t \<le> maxPolarAngle"
proof -
  have s1: "sqrt 3 / 2 \<le> (1::real)"
    using real_sqrt_le_mono[of 3 4] by simp
  have a: "arccos (sqrt 3 / 2) = pi / 6"
    using arccos_cos[of "pi / 6"] by (simp add: cos_30)
  have "cos (pi - pi / 6) = - (sqrt 3 / 2)" unfolding cos_pi_minus by (simp add: cos_30)
  then have b: "arccos (- (sqrt 3 / 2)) = pi - pi / 6"
    using arccos_cos[of "pi - pi / 6"] by simp
  have lo: "arccos (sqrt 3 / 2) \<le> arccos t"
    using assms s1 by (intro arccos_le_arccos) auto
  have hi: "arccos t \<le> arccos (- (sqrt 3 / 2))"
    using assms s1 by (intro arccos_le_arccos) auto
  have p: "2 \<le> pi" by (rule pi_ge_two)
  from lo hi a b p show ?thesis by (simp add: minPolarAngle_def maxPolarAngle_def)
qed

lemma orbitControls_update_inside:
  assumes nz: "lengthSq (subV (position cam) (target ct)) \<noteq> 0"
    and polar: "minPolarAngle \<le> phi (setFromVector3 (subV (position cam) (target ct)))"
      "phi (setFromVector3 (subV (position cam) (target ct))) \<le> maxPolarAngle"
  shows "position (fst (orbitControls_update cam ct)) =
     addV (target ct) (multiplyScalar (subV (position cam) (target ct))
        (max minDistance (min maxDistance (lengthV (subV (position cam) (target ct))))
           / lengthV (subV (position cam) (target ct))))"
proof -
  define v where "v = subV (position cam) (target ct)"
  define sp where "sp = setFromVector3 v"
  have p: "2 \<le> pi" by (rule pi_ge_two)
  have ph: "max minPolarAngle (min maxPolarAngle (phi sp)) = phi sp"
    using polar unfolding sp_def v_def by linarith
  have safe: "max (1 / 1000000) (min (pi - 1 / 1000000) (phi sp)) = phi sp"
    using polar p unfolding sp_def v_def minPolarAngle_def maxPolarAngle_def by linarith
  have "makeSafe (sp\<lparr>phi := max minPolarAngle (min maxPolarAngle (phi sp))\<rparr>) = sp"
    unfolding ph makeSafe_def by (simp add: safe)
  then have "position (fst (orbitControls_update cam ct)) =
      addV (target ct) (setFromSpherical (sp\<lparr>radius := max minDistance (min maxDistance (radius sp))\<rparr>))"
    by (simp add: orbitControls_update_def Let_def update_quat_def applyQuaternion_identityQ
        invertQ_identityQ sp_def v_def)
  also have "\<dots> = addV (target ct) (multiplyScalar v (max minDistance (min maxDistance (lengthV v)) / lengthV v))"
    unfolding sp_def using spherical_roundtrip[of v] nz
    by (simp add: v_def radius_setFromVector3)
  finally show ?thesis by (simp add: v_def)
qed



lemma lengthSq_pos_iff: "lengthSq v \<noteq> 0 \<longleftrightarrow> 0 < lengthV v"
proof -
  have "0 \<le> lengthSq v" by (simp add: lengthSq_def)
  then show ?thesis unfolding lengthV_def lengthSq_def[symmetric] by auto
qed

lemma ratio_bounded:
  assumes "lengthSq v \<noteq> 0"
  shows "- 1 \<le> vy v / lengthV v \<and> vy v / lengthV v \<le> 1"
proof -
  have pos: "0 < lengthV v" using assms by (simp add: lengthSq_pos_iff)
  have "vy v * vy v \<le> lengthV v * lengthV v"
    unfolding lengthV_sq by (simp add: lengthSq_def add.commute add_increasing2)
  then have "\<bar>vy v\<bar> \<le> lengthV v"
    using pos by (metis abs_le_square_iff abs_of_pos power2_eq_square)
  then have "\<bar>vy v / lengthV v\<bar> \<le> 1" using pos by simp
  then show ?thesis by linarith
qed

lemma phi_setFromVector3:
  assumes "lengthSq v \<noteq> 0"
  shows "phi (setFromVector3 v) = arccos (vy v / lengthV v)"
proof -
  have pos: "0 < lengthV v" using assms by (simp add: lengthSq_pos_iff)
  have "clamp (vy v / lengthV v) (- 1) 1 = vy v / lengthV v"
    using ratio_bounded[OF assms] unfolding clamp_def by linarith
  then show ?thesis using pos by (simp add: setFromVector3_def Let_def lengthV_def)
qed

lemma addV_subV: "addV t (subV p t) = p"
  by (simp add: subV_def addV_def)

lemma multiplyScalar_one: "multiplyScalar v 1 = v"
  by (simp add: multiplyScalar_def)

lemma orbitControls_update_fixed:
  assumes "within_limits cam ct"
  shows "position (fst (orbitControls_update cam ct)) = position cam"
proof -
  let ?v = "subV (position cam) (target ct)"
  from assms have r: "minDistance \<le> lengthV ?v" "lengthV ?v \<le> maxDistance"
    and ph: "minPolarAngle \<le> phi (setFromVector3 ?v)" "phi (setFromVector3 ?v) \<le> maxPolarAngle"
    by (simp_all add: within_limits_def Let_def radius_setFromVector3)
  from r have pos: "0 < lengthV ?v" by (simp add: minDistance_def)
  then have nz: "lengthSq ?v \<noteq> 0" by (simp add: lengthSq_pos_iff)
  have c: "max minDistance (min maxDistance (lengthV ?v)) = lengthV ?v" using r by linarith
  show ?thesis
    unfolding orbitControls_update_inside[OF nz ph] c using pos
    by (simp add: multiplyScalar_one addV_subV)
qed

lemma polar_limits_ordered:
  "1 / 1000000 \<le> minPolarAngle \<and> minPolarAngle \<le> maxPolarAngle \<and> maxPolarAngle \<le> pi - 1 / 1000000
   \<and> 0 \<le> minPolarAngle \<and> maxPolarAngle \<le> pi"
  using pi_ge_two by (simp add: minPolarAngle_def maxPolarAngle_def)

lemma orbitControls_update_establishes:
  "within_limits (fst (orbitControls_update cam ct)) (snd (orbitControls_update cam ct))"
proof -
  define sp0 where "sp0 = setFromVector3 (subV (position cam) (target ct))"
  define P where "P = max minPolarAngle (min maxPolarAngle (phi sp0))"
  define R where "R = max minDistance (min maxDistance (radius sp0))"
  define w where "w = setFromSpherical \<lparr>radius = R, phi = P, theta = theta sp0\<rparr>"
  have Pb: "minPolarAngle \<le> P" "P \<le> maxPolarAngle"
    unfolding P_def using polar_limits_ordered by linarith+
  have Rb: "minDistance \<le> R" "R \<le> maxDistance"
    unfolding R_def by (simp_all add: minDistance_def maxDistance_def)
  have safe: "max (1 / 1000000) (min (pi - 1 / 1000000) P) = P"
    using Pb polar_limits_ordered by linarith
  have sp3: "(makeSafe (sp0\<lparr>phi := P\<rparr>))\<lparr>radius := R\<rparr> = \<lparr>radius = R, phi = P, theta = theta sp0\<rparr>"
    by (simp add: makeSafe_def safe)
  have "position (fst (orbitControls_update cam ct))
      = addV (target ct) (setFromSpherical ((makeSafe (sp0\<lparr>phi := P\<rparr>))\<lparr>radius := R\<rparr>))"
    unfolding R_def P_def sp0_def
    by (simp add: orbitControls_update_def Let_def update_quat_def applyQuaternion_identityQ
        invertQ_identityQ makeSafe_def)
  then have pos: "position (fst (orbitControls_update cam ct)) = addV (target ct) w"
    unfolding sp3 w_def .
  have tg: "target (snd (orbitControls_update cam ct)) = target ct"
    by (simp add: orbitControls_update_def Let_def)
  have Rpos: "0 < R" using Rb by (simp add: minDistance_def)
  have lw: "lengthV w = R" unfolding w_def lengthV_setFromSpherical using Rpos by simp
  then have nz: "lengthSq w \<noteq> 0" using Rpos by (simp add: lengthSq_pos_iff)
  have yw: "vy w = cos P * R" by (simp add: w_def setFromSpherical_def Let_def)
  have "0 \<le> P" "P \<le> pi" using Pb polar_limits_ordered by linarith+
  then have "arccos (cos P) = P" by (rule arccos_cos)
  then have phw: "phi (setFromVector3 w) = P"
    unfolding phi_setFromVector3[OF nz] lw yw using Rpos by simp
  show ?thesis
    unfolding within_limits_def Let_def pos tg subV_addV
    using Pb Rb by (simp add: radius_setFromVector3 lw phw)
qed

lemma orbitControls_update_direction:
  assumes p: "position cam = addV (target ct) (multiplyScalar u k)"
    and u: "lengthV u = 1" and k: "0 < k"
    and y: "- (sqrt 3 / 2) \<le> vy u" "vy u \<le> sqrt 3 / 2"
  shows "position (fst (orbitControls_update cam ct))
     = addV (target ct) (multiplyScalar u (max minDistance (min maxDistance k)))"
proof -
  let ?v = "subV (position cam) (target ct)"
  have v: "?v = multiplyScalar u k" unfolding p by (rule subV_addV)
  have "lengthV (multiplyScalar u k) = sqrt (k * k * (lengthV u * lengthV u))"
    unfolding lengthV_sq by (simp add: lengthV_def lengthSq_def multiplyScalar_def algebra_simps)
  then have lv: "lengthV ?v = k" using u k v by simp
  then have nz: "lengthSq ?v \<noteq> 0" using k by (simp add: lengthSq_pos_iff)
  have yv: "vy ?v / lengthV ?v = vy u" unfolding lv unfolding v using k by (simp add: multiplyScalar_def)
  have ph: "minPolarAngle \<le> phi (setFromVector3 ?v)" "phi (setFromVector3 ?v) \<le> maxPolarAngle"
    unfolding phi_setFromVector3[OF nz] yv using polar_within[OF y] by simp_all
  have "multiplyScalar ?v (max minDistance (min maxDistance k) / k)
      = multiplyScalar u (max minDistance (min maxDistance k))"
    unfolding v using k by (simp add: multiplyScalar_def)
  then show ?thesis unfolding orbitControls_update_inside[OF nz ph] lv by simp
qed

lemma orbitControls_update_vertical:
  assumes p: "position cam = addV (target ct) (Vector3 0 (b * 10) 0)"
    and b: "b = 1 \<or> b = - 1"
  shows "position (fst (orbitControls_update cam ct))
     = addV (target ct) (multiplyScalar
         (Vector3 0 (cos (if b = 1 then minPolarAngle else maxPolarAngle))
                    (sin (if b = 1 then minPolarAngle else maxPolarAngle))) 10)"
proof -
  have v: "subV (position cam) (target ct) = Vector3 0 (b * 10) 0" unfolding p by (rule subV_addV)
  have r: "sqrt (b * 10 * (b * 10)) = 10" using b real_sqrt_abs[of 10] by auto
  have sv: "setFromVector3 (Vector3 0 (b * 10) 0) = \<lparr>radius = 10, phi = arccos b, theta = 0\<rparr>"
    using b by (auto simp add: setFromVector3_def Let_def r clamp_def atan2_def)
  have ph: "max minPolarAngle (min maxPolarAngle (arccos b))
      = (if b = 1 then minPolarAngle else maxPolarAngle)"
    using b polar_limits_ordered by auto
  have safe: "max (1 / 1000000) (min (pi - 1 / 1000000) (if b = 1 then minPolarAngle else maxPolarAngle))
      = (if b = 1 then minPolarAngle else maxPolarAngle)"
    using polar_limits_ordered by auto
  show ?thesis
    unfolding orbitControls_update_def Let_def v
    by (simp add: update_quat_def applyQuaternion_identityQ invertQ_identityQ sv makeSafe_def
        ph safe setFromSpherical_def minDistance_def maxDistance_def multiplyScalar_def
        del: arccos_1 arccos_minus_1)
qed

lemma update_controls_some:
  assumes "camera s = Some cam" "controls s = Some ct"
  shows "camera (update_controls s) = Some (fst (orbitControls_update cam ct))"
    and "controls (update_controls s) = Some (snd (orbitControls_update cam ct))"
  using assms by (simp_all add: update_controls_def)

lemma update_controls_frame:
  "core (update_controls s) = core s"
  "artifactGroup (update_controls s) = artifactGroup s"
  "next_id (update_controls s) = next_id s"
  "disposed (update_controls s) = disposed s"
  "frustumSize (update_controls s) = frustumSize s"
  "map_option target (controls (update_controls s)) = map_option target (controls s)"
  "map_option up (camera (update_controls s)) = map_option up (camera s)"
  by (simp_all add: update_controls_def orbitControls_update_frame split: option.splits)

lemma update_controls_within_limits:
  assumes "camera s = Some cam" "controls s = Some ct"
  shows "\<exists>cam' ct'. camera (update_controls s) = Some cam' \<and>
           controls (update_controls s) = Some ct' \<and> within_limits cam' ct'"
  using assms orbitControls_update_establishes[of cam ct] by (simp add: update_controls_def)

subsection \<open>Visual styles\<close>

lemma visualStyle_setVisualStyle:
  "visualStyle (setVisualStyle style s) =
     (case style of None \<Rightarrow> ''shaded'' | Some t \<Rightarrow> if t = [] then ''shaded'' else t)"
  by (simp add: setVisualStyle_def material_set_wireframe_def edges_set_visible_def
      edge_lines_set_def Let_def split: option.splits)

lemma setVisualStyle_wireframe:
  assumes "core s = Some c" "material c = Some m" "edgesGroup s = Some e"
  shows "wireframe (setVisualStyle (Some ''wireframe'') s) m \<and>
         edgesGroup (setVisualStyle (Some ''wireframe'') s) = Some (e\<lparr>visible := False\<rparr>)"
  using assms
  by (simp add: setVisualStyle_def material_set_wireframe_def edges_set_visible_def)

lemma setVisualStyle_shaded_edge:
  assumes "core s = Some c" "material c = Some m" "edgesGroup s = Some e"
    "hiddenEdgeLines s = Some h" "visibleEdgeLines s = Some v"
  shows "\<not> wireframe (setVisualStyle (Some ''shaded-edge'') s) m \<and>
         edgesGroup (setVisualStyle (Some ''shaded-edge'') s) = Some (e\<lparr>visible := True\<rparr>) \<and>
         hiddenEdgeLines (setVisualStyle (Some ''shaded-edge'') s) = Some False \<and>
         visibleEdgeLines (setVisualStyle (Some ''shaded-edge'') s) = Some True"
  using assms
  by (simp add: setVisualStyle_def material_set_wireframe_def edge_lines_set_def)

lemma setVisualStyle_shaded_hidden:
  assumes "core s = Some c" "material c = Some m" "edgesGroup s = Some e"
    "hiddenEdgeLines s = Some h" "visibleEdgeLines s = Some v"
  shows "\<not> wireframe (setVisualStyle (Some ''shaded-hidden'') s) m \<and>
         edgesGroup (setVisualStyle (Some ''shaded-hidden'') s) = Some (e\<lparr>visible := True\<rparr>) \<and>
         hiddenEdgeLines (setVisualStyle (Some ''shaded-hidden'') s) = Some True \<and>
         visibleEdgeLines (setVisualStyle (Some ''shaded-hidden'') s) = Some True"
  using assms
  by (simp add: setVisualStyle_def material_set_wireframe_def edge_lines_set_def)

lemma setVisualStyle_other:
  assumes "core s = Some c" "material c = Some m" "edgesGroup s = Some e"
    "style \<noteq> Some ''wireframe''" "style \<noteq> Some ''shaded-edge''" "style \<noteq> Some ''shaded-hidden''"
  shows "\<not> wireframe (setVisualStyle style s) m \<and>
         edgesGroup (setVisualStyle style s) = Some (e\<lparr>visible := False\<rparr>)"
proof (cases style)
  case None
  with assms(1-3) show ?thesis
    by (simp add: setVisualStyle_def material_set_wireframe_def edges_set_visible_def)
next
  case (Some t)
  with assms show ?thesis
    by (simp add: setVisualStyle_def material_set_wireframe_def edges_set_visible_def)
qed

text \<open>
  C6. With a model loaded (the core mesh, its material and the edge overlay with its two
  line objects exist), \<open>setVisualStyle\<close> is a four-state switch: \<open>'wireframe'\<close> sets the
  wireframe flag of the core's material and hides the overlay; \<open>'shaded-edge'\<close> clears
  the flag and shows the overlay with the hidden-edge lines invisible and the visible-edge
  lines shown; \<open>'shaded-hidden'\<close> clears the flag and shows the overlay and both kinds of
  lines; \<open>'shaded'\<close> and every other value, the absent one included, clear the flag and
  hide the overlay. After \<open>setVisualStyle(t)\<close> with a truthy (non-empty) string \<open>t\<close>,
  \<open>getVisualStyle()\<close> returns \<open>t\<close>, and \<open>getVisualStyle()\<close> returns \<open>'shaded'\<close> whenever
  the stored style is falsy.
\<close>

theorem setVisualStyle_four_state_switch:
  assumes "core s = Some c" and "material c = Some m" and "edgesGroup s = Some e"
    and "hiddenEdgeLines s = Some h" and "visibleEdgeLines s = Some v"
  shows
    "(wireframe (setVisualStyle (Some ''wireframe'') s) m \<and>
      edgesGroup (setVisualStyle (Some ''wireframe'') s) = Some (e\<lparr>visible := False\<rparr>)) \<and>
     (\<not> wireframe (setVisualStyle (Some ''shaded-edge'') s) m \<and>
      edgesGroup (setVisualStyle (Some ''shaded-edge'') s) = Some (e\<lparr>visible := True\<rparr>) \<and>
      hiddenEdgeLines (setVisualStyle (Some ''shaded-edge'') s) = Some False \<and>
      visibleEdgeLines (setVisualStyle (Some ''shaded-edge'') s) = Some True) \<and>
     (\<not> wireframe (setVisualStyle (Some ''shaded-hidden'') s) m \<and>
      edgesGroup (setVisualStyle (Some ''shaded-hidden'') s) = Some (e\<lparr>visible := True\<rparr>) \<and>
      hiddenEdgeLines (setVisualStyle (Some ''shaded-hidden'') s) = Some True \<and>
      visibleEdgeLines (setVisualStyle (Some ''shaded-hidden'') s) = Some True) \<and>
     (\<forall>style. style \<noteq> Some ''wireframe'' \<and> style \<noteq> Some ''shaded-edge'' \<and>
        style \<noteq> Some ''shaded-hidden'' \<longrightarrow>
        \<not> wireframe (setVisualStyle style s) m \<and>
        edgesGroup (setVisualStyle style s) = Some (e\<lparr>visible := False\<rparr>)) \<and>
     (\<forall>t. t \<noteq> [] \<longrightarrow> getVisualStyle (setVisualStyle (Some t) s) = t) \<and>
     (\<forall>s'. visualStyle s' = [] \<longrightarrow> getVisualStyle s' = ''shaded'')"
proof -
  have get: "\<forall>t. t \<noteq> [] \<longrightarrow> getVisualStyle (setVisualStyle (Some t) s) = t"
    by (simp add: getVisualStyle_def visualStyle_setVisualStyle)
  have falsy: "\<forall>s'. visualStyle s' = [] \<longrightarrow> getVisualStyle s' = ''shaded''"
    by (simp add: getVisualStyle_def)
  have other: "\<forall>style. style \<noteq> Some ''wireframe'' \<and> style \<noteq> Some ''shaded-edge'' \<and>
        style \<noteq> Some ''shaded-hidden'' \<longrightarrow>
        \<not> wireframe (setVisualStyle style s) m \<and>
        edgesGroup (setVisualStyle style s) = Some (e\<lparr>visible := False\<rparr>)"
    using setVisualStyle_other[OF assms(1-3)] by blast
  show ?thesis
    using setVisualStyle_wireframe[OF assms(1-3)] setVisualStyle_shaded_edge[OF assms]
      setVisualStyle_shaded_hidden[OF assms] other get falsy
    by blast
qed

theorem setVisualStyle_four_state_switch_witness:
  "wireframe (setVisualStyle (Some ''wireframe'') loaded_scene) DefaultMaterial \<and>
   edgesGroup (setVisualStyle (Some ''shaded-edge'') loaded_scene)
     = Some \<lparr>edges_id = 1, visible = True\<rparr> \<and>
   hiddenEdgeLines (setVisualStyle (Some ''shaded-edge'') loaded_scene) = Some False \<and>
   hiddenEdgeLines (setVisualStyle (Some ''shaded-hidden'') loaded_scene) = Some True \<and>
   \<not> wireframe (setVisualStyle (Some ''shaded'') loaded_scene) DefaultMaterial \<and>
   edgesGroup (setVisualStyle None loaded_scene) = Some \<lparr>edges_id = 1, visible = False\<rparr> \<and>
   getVisualStyle (setVisualStyle (Some ''wireframe'') loaded_scene) = ''wireframe''"
proof -
  let ?c = "\<lparr>mesh_id = 0, geometry = [], mesh_name = ''part'', material = Some DefaultMaterial\<rparr>"
  let ?e = "\<lparr>edges_id = 1, visible = False\<rparr>"
  have h1: "core loaded_scene = Some ?c" by (simp add: loaded_scene_def)
  have h2: "material ?c = Some DefaultMaterial" by simp
  have h3: "edgesGroup loaded_scene = Some ?e" by (simp add: loaded_scene_def)
  have h4: "hiddenEdgeLines loaded_scene = Some True" by (simp add: loaded_scene_def)
  have h5: "visibleEdgeLines loaded_scene = Some True" by (simp add: loaded_scene_def)
  have n1: "Some ''shaded'' \<noteq> Some ''wireframe'' \<and> Some ''shaded'' \<noteq> Some ''shaded-edge'' \<and>
            Some ''shaded'' \<noteq> Some ''shaded-hidden''" by simp
  have n2: "None \<noteq> Some ''wireframe'' \<and> None \<noteq> Some ''shaded-edge'' \<and>
            None \<noteq> Some ''shaded-hidden''" by simp
  have w: "''wireframe'' \<noteq> []" by simp
  from setVisualStyle_four_state_switch[OF h1 h2 h3 h4 h5] n1 n2 w
  show ?thesis by simp
qed

subsection \<open>Camera framing and preset views\<close>

lemma maxDim_getSize_nonneg: "0 \<le> maxDim_of (getSize b)"
proof (cases b)
  case EmptyBox
  then show ?thesis by (simp add: maxDim_of_def zeroV_def)
next
  case (Box3 mn mx)
  then show ?thesis by (auto simp add: maxDim_of_def subV_def zeroV_def)
qed

lemma isoDir_facts:
  "lengthV (normalizeV (Vector3 1 1 1)) = 1"
  "- (sqrt 3 / 2) \<le> vy (normalizeV (Vector3 1 1 1))"
  "vy (normalizeV (Vector3 1 1 1)) \<le> sqrt 3 / 2"
  "0 < vx (normalizeV (Vector3 1 1 1))"
proof -
  show "lengthV (normalizeV (Vector3 1 1 1)) = 1" using lengthSq_111 by (rule lengthV_normalizeV)
  have y: "vy (normalizeV (Vector3 1 1 1)) = 1 / sqrt 3" "vx (normalizeV (Vector3 1 1 1)) = 1 / sqrt 3"
    by (simp_all add: normalizeV_def lengthV_def divideScalar_def multiplyScalar_def)
  have pos: "0 < sqrt (3::real)" by simp
  have "2 * 1 \<le> sqrt 3 * sqrt (3::real)" by simp
  then have b: "1 / sqrt 3 \<le> sqrt 3 / (2::real)"
    using pos by (subst frac_le_eq) simp_all
  have p: "(0::real) < 1 / sqrt 3" by simp
  show "- (sqrt 3 / 2) \<le> vy (normalizeV (Vector3 1 1 1))" unfolding y using b p by linarith
  show "vy (normalizeV (Vector3 1 1 1)) \<le> sqrt 3 / 2" unfolding y by (rule b)
  show "0 < vx (normalizeV (Vector3 1 1 1))" unfolding y by (rule p)
qed

text \<open>The camera and the controls as \<open>init()\<close> leaves them are within the limits.\<close>

lemma init_within_limits:
  "within_limits init_camera \<lparr>target = zeroV, enableRotate = False, updates = 0\<rparr>"
proof -
  let ?u = "normalizeV (Vector3 1 1 1)"
  let ?v = "multiplyScalar ?u 10"
  have v: "subV (position init_camera) zeroV = ?v"
    by (simp add: init_camera_def subV_def zeroV_def multiplyScalar_def)
  have "lengthV ?v = sqrt (10 * 10 * (lengthV ?u * lengthV ?u))"
    unfolding lengthV_sq by (simp add: lengthV_def lengthSq_def multiplyScalar_def algebra_simps)
  then have l: "lengthV ?v = 10" using isoDir_facts(1) real_sqrt_abs[of 10] by simp
  then have nz: "lengthSq ?v \<noteq> 0" by (simp add: lengthSq_pos_iff)
  have y: "vy ?v / lengthV ?v = vy ?u" unfolding l by (simp add: multiplyScalar_def)
  have ph: "minPolarAngle \<le> phi (setFromVector3 ?v) \<and> phi (setFromVector3 ?v) \<le> maxPolarAngle"
    unfolding phi_setFromVector3[OF nz] y using polar_within[OF isoDir_facts(2) isoDir_facts(3)] .
  show ?thesis
    unfolding within_limits_def Let_def
    using ph l by (simp add: v radius_setFromVector3 minDistance_def maxDistance_def)
qed

lemma fitModelToView_camera:
  assumes cam: "camera s = Some cam"
  shows
    "\<exists>cam'. camera (fitModelToView iw ih (Some box) p s) = Some cam' \<and>
       c_left cam' = - max (1 / 1000000) (maxDim_of (getSize box) * p) * (iw / ih) / 2 \<and>
       c_right cam' = max (1 / 1000000) (maxDim_of (getSize box) * p) * (iw / ih) / 2 \<and>
       c_top cam' = max (1 / 1000000) (maxDim_of (getSize box) * p) / 2 \<and>
       c_bottom cam' = - max (1 / 1000000) (maxDim_of (getSize box) * p) / 2 \<and>
       position cam' = addV (getCenter box) (multiplyScalar (normalizeV (Vector3 1 1 1))
            (if controls s = None then maxDim_of (getSize box) * 2.5 + 1.0
             else max minDistance (min maxDistance (maxDim_of (getSize box) * 2.5 + 1.0)))) \<and>
       up cam' = Vector3 0 1 0"
proof (cases "controls s")
  case None
  with cam show ?thesis by (simp add: fitModelToView_def Let_def)
next
  case (Some ct)
  define fs where "fs = max (1 / 1000000) (maxDim_of (getSize box) * p)"
  define dist where "dist = maxDim_of (getSize box) * 2.5 + 1.0"
  define cam2 where "cam2 = cam\<lparr>c_left := - fs * (iw / ih) / 2, c_right := fs * (iw / ih) / 2,
      c_top := fs / 2, c_bottom := - fs / 2,
      position := addV (getCenter box) (multiplyScalar (normalizeV (Vector3 1 1 1)) dist),
      up := Vector3 0 1 0\<rparr>"
  define ct1 where "ct1 = ct\<lparr>target := getCenter box\<rparr>"
  have k: "0 < dist" unfolding dist_def using maxDim_getSize_nonneg[of box] by simp
  have c: "camera (fitModelToView iw ih (Some box) p s) = Some (fst (orbitControls_update cam2 ct1))"
    using cam Some
    by (simp add: fitModelToView_def Let_def update_controls_def cam2_def ct1_def fs_def dist_def)
  have pos: "position cam2 = addV (target ct1) (multiplyScalar (normalizeV (Vector3 1 1 1)) dist)"
    by (simp add: cam2_def ct1_def)
  have p2: "position (fst (orbitControls_update cam2 ct1))
      = addV (getCenter box) (multiplyScalar (normalizeV (Vector3 1 1 1))
          (max minDistance (min maxDistance dist)))"
    using orbitControls_update_direction[OF pos isoDir_facts(1) k isoDir_facts(2) isoDir_facts(3)]
    by (simp add: ct1_def)
  show ?thesis
    unfolding c using Some p2
    by (simp add: orbitControls_update_frame cam2_def fs_def dist_def)
qed

text \<open>
  C5 (as amended). For an object with bounding-box centre \<open>c\<close> and largest dimension
  \<open>maxDim\<close>, and a padding \<open>p\<close>, \<open>fitModelToView\<close> sets \<open>frustumSize\<close> to
  \<open>max(1e-6, maxDim * p)\<close>, makes the orthographic frustum symmetric (left and right
  \<open>-/+ frustumSize * aspect / 2\<close>, top and bottom \<open>+/- frustumSize / 2\<close>), sets the camera's
  up vector to \<open>(0,1,0)\<close> and the controls' target to \<open>c\<close>, and leaves the camera at
  \<open>c + normalize(1,1,1) * d\<close>, where \<open>d\<close> is \<open>maxDim * 2.5 + 1\<close> brought into the controls'
  distance range by the closing \<open>controls.update()\<close> (and \<open>maxDim * 2.5 + 1\<close> itself with no
  controls); with the object or the camera missing it returns the state unchanged. The
  window's height is taken non-zero: the quotient \<open>aspect\<close> is not a finite number
  otherwise, and the reals have none such.
\<close>

theorem fitModelToView_frames_object:
  fixes box :: box3 and p iw ih :: real
  defines "c \<equiv> getCenter box"
    and "maxDim \<equiv> maxDim_of (getSize box)"
    and "fs \<equiv> max (1 / 1000000) (maxDim_of (getSize box) * p)"
    and "aspect \<equiv> iw / ih"
  assumes cam: "camera s = Some cam"
    and height: "ih \<noteq> 0"
  shows
    "frustumSize (fitModelToView iw ih (Some box) p s) = fs \<and>
     (\<exists>cam'. camera (fitModelToView iw ih (Some box) p s) = Some cam' \<and>
        c_left cam' = - fs * aspect / 2 \<and> c_right cam' = fs * aspect / 2 \<and>
        c_top cam' = fs / 2 \<and> c_bottom cam' = - fs / 2 \<and>
        position cam' = addV c (multiplyScalar (normalizeV (Vector3 1 1 1))
            (if controls s = None then maxDim * 2.5 + 1.0
             else max minDistance (min maxDistance (maxDim * 2.5 + 1.0)))) \<and>
        up cam' = Vector3 0 1 0) \<and>
     (\<forall>ct. controls s = Some ct \<longrightarrow>
        map_option target (controls (fitModelToView iw ih (Some box) p s)) = Some c) \<and>
     (\<forall>s0 object. object = None \<or> camera s0 = None \<longrightarrow>
        fitModelToView iw ih object p s0 = s0)"
proof -
  have missing: "\<forall>s0 object. object = None \<or> camera s0 = None \<longrightarrow>
        fitModelToView iw ih object p s0 = s0"
    by (auto simp add: fitModelToView_def split: option.splits)
  have fs: "frustumSize (fitModelToView iw ih (Some box) p s) = fs"
    using cam
    by (simp add: fitModelToView_def Let_def fs_def update_controls_frame split: option.splits)
  have camera: "\<exists>cam'. camera (fitModelToView iw ih (Some box) p s) = Some cam' \<and>
        c_left cam' = - fs * aspect / 2 \<and> c_right cam' = fs * aspect / 2 \<and>
        c_top cam' = fs / 2 \<and> c_bottom cam' = - fs / 2 \<and>
        position cam' = addV c (multiplyScalar (normalizeV (Vector3 1 1 1))
            (if controls s = None then maxDim * 2.5 + 1.0
             else max minDistance (min maxDistance (maxDim * 2.5 + 1.0)))) \<and>
        up cam' = Vector3 0 1 0"
    using fitModelToView_camera[OF cam, of iw ih box p]
    unfolding fs_def aspect_def c_def maxDim_def by simp
  have tgt: "\<forall>ct. controls s = Some ct \<longrightarrow>
        map_option target (controls (fitModelToView iw ih (Some box) p s)) = Some c"
    using cam by (simp add: fitModelToView_def Let_def c_def update_controls_frame)
  from fs camera tgt missing show ?thesis by blast
qed

theorem fitModelToView_frames_object_witness:
  "frustumSize (fitModelToView 800 600
      (Some (Box3 (Vector3 (- 1) (- 2) (- 3)) (Vector3 1 2 3))) 1.2 init_scene) = 7.2 \<and>
   map_option position (camera (fitModelToView 800 600
      (Some (Box3 (Vector3 (- 1) (- 2) (- 3)) (Vector3 1 2 3))) 1.2 init_scene))
     = Some (addV zeroV (multiplyScalar (normalizeV (Vector3 1 1 1)) 16)) \<and>
   map_option target (controls (fitModelToView 800 600
      (Some (Box3 (Vector3 (- 1) (- 2) (- 3)) (Vector3 1 2 3))) 1.2 init_scene)) = Some zeroV \<and>
   fitModelToView 800 600 None 1.2 init_scene = init_scene"
proof -
  let ?box = "Box3 (Vector3 (- 1) (- 2) (- 3)) (Vector3 1 2 3)"
  have h: "camera init_scene = Some init_camera" by (simp add: init_scene_def)
  have c: "controls init_scene = Some \<lparr>target = zeroV, enableRotate = False, updates = 0\<rparr>"
    by (simp add: init_scene_def)
  have nz: "(600::real) \<noteq> 0" by simp
  have v: "getCenter ?box = zeroV \<and> maxDim_of (getSize ?box) = 6"
    by (simp add: maxDim_of_def subV_def addV_def multiplyScalar_def zeroV_def)
  have d: "max minDistance (min maxDistance (6 * 2.5 + 1.0)) = (16::real)"
    by (simp add: minDistance_def maxDistance_def)
  from fitModelToView_frames_object[where iw = 800 and ih = 600
      and box = ?box and p = "1.2", OF h nz] c
  have "frustumSize (fitModelToView 800 600 (Some ?box) 1.2 init_scene) = max (1 / 1000000) (6 * 1.2) \<and>
     (\<exists>cam'. camera (fitModelToView 800 600 (Some ?box) 1.2 init_scene) = Some cam' \<and>
        position cam' = addV zeroV (multiplyScalar (normalizeV (Vector3 1 1 1))
            (max minDistance (min maxDistance (6 * 2.5 + 1.0))))) \<and>
     map_option target (controls (fitModelToView 800 600 (Some ?box) 1.2 init_scene)) = Some zeroV \<and>
     fitModelToView 800 600 None 1.2 init_scene = init_scene"
    unfolding v[THEN conjunct1] v[THEN conjunct2] by auto
  then show ?thesis unfolding d by auto
qed

text \<open>
  C5 (as stated). For a cube of side 100 the specification puts the camera at distance
  \<open>100 * 2.5 + 1 = 251\<close> from the centre, and for an object with an empty bounding box at
  distance \<open>0 * 2.5 + 1 = 1\<close>; \<open>controls.update()\<close>, the function's last statement, brings
  the first back to \<open>maxDistance = 100\<close> and the second out to \<open>minDistance = 3\<close>.
\<close>

theorem fitModelToView_distance_counterexample:
  "map_option position (camera (fitModelToView 800 600
      (Some (Box3 (Vector3 (- 50) (- 50) (- 50)) (Vector3 50 50 50))) 1.2 init_scene))
   \<noteq> Some (addV (getCenter (Box3 (Vector3 (- 50) (- 50) (- 50)) (Vector3 50 50 50)))
        (multiplyScalar (normalizeV (Vector3 1 1 1))
           (maxDim_of (getSize (Box3 (Vector3 (- 50) (- 50) (- 50)) (Vector3 50 50 50))) * 2.5 + 1.0))) \<and>
   map_option position (camera (fitModelToView 800 600 (Some EmptyBox) 1.2 init_scene))
   \<noteq> Some (addV (getCenter EmptyBox)
        (multiplyScalar (normalizeV (Vector3 1 1 1)) (maxDim_of (getSize EmptyBox) * 2.5 + 1.0)))"
proof -
  let ?box = "Box3 (Vector3 (- 50) (- 50) (- 50)) (Vector3 50 50 50)"
  have h: "camera init_scene = Some init_camera" by (simp add: init_scene_def)
  have c: "controls init_scene \<noteq> None" by (simp add: init_scene_def)
  have v: "getCenter ?box = zeroV \<and> maxDim_of (getSize ?box) = 100"
    by (simp add: maxDim_of_def subV_def addV_def multiplyScalar_def zeroV_def)
  have e: "getCenter EmptyBox = zeroV \<and> maxDim_of (getSize EmptyBox) = 0"
    by (simp add: maxDim_of_def zeroV_def)
  have d: "max minDistance (min maxDistance (100 * 2.5 + 1.0)) = (100::real)"
    "max minDistance (min maxDistance (0 * 2.5 + 1.0)) = (3::real)"
    by (simp_all add: minDistance_def maxDistance_def)
  from fitModelToView_camera[OF h, of 800 600 ?box "1.2"] c
  have p: "map_option position (camera (fitModelToView 800 600 (Some ?box) 1.2 init_scene))
      = Some (addV zeroV (multiplyScalar (normalizeV (Vector3 1 1 1)) 100))"
    unfolding v[THEN conjunct1] v[THEN conjunct2] d by auto
  from fitModelToView_camera[OF h, of 800 600 EmptyBox "1.2"] c
  have q: "map_option position (camera (fitModelToView 800 600 (Some EmptyBox) 1.2 init_scene))
      = Some (addV zeroV (multiplyScalar (normalizeV (Vector3 1 1 1)) 3))"
    unfolding e[THEN conjunct1] e[THEN conjunct2] d by auto
  have "vx (addV zeroV (multiplyScalar (normalizeV (Vector3 1 1 1)) 100))
      \<noteq> vx (addV zeroV (multiplyScalar (normalizeV (Vector3 1 1 1)) (100 * 2.5 + 1.0)))"
    using isoDir_facts(4) by (simp add: addV_def multiplyScalar_def zeroV_def)
  then have n1: "addV zeroV (multiplyScalar (normalizeV (Vector3 1 1 1)) 100)
      \<noteq> addV zeroV (multiplyScalar (normalizeV (Vector3 1 1 1)) (100 * 2.5 + 1.0))"
    by metis
  have "vx (addV zeroV (multiplyScalar (normalizeV (Vector3 1 1 1)) 3))
      \<noteq> vx (addV zeroV (multiplyScalar (normalizeV (Vector3 1 1 1)) (0 * 2.5 + 1.0)))"
    using isoDir_facts(4) by (simp add: addV_def multiplyScalar_def zeroV_def)
  then have n2: "addV zeroV (multiplyScalar (normalizeV (Vector3 1 1 1)) 3)
      \<noteq> addV zeroV (multiplyScalar (normalizeV (Vector3 1 1 1)) (0 * 2.5 + 1.0))"
    by metis
  from n1 n2 show ?thesis
    unfolding p q v[THEN conjunct1] v[THEN conjunct2] e[THEN conjunct1] e[THEN conjunct2] by simp
qed

lemma preset_pos_known:
  assumes "(ident, u) \<in> set known_presets"
  shows "preset_pos ident = Some (multiplyScalar u 10) \<and> lengthV u = 1 \<and>
     (ident = ''top'' \<and> u = Vector3 0 1 0 \<or> ident = ''bottom'' \<and> u = Vector3 0 (- 1) 0 \<or>
      ident \<noteq> ''top'' \<and> ident \<noteq> ''bottom'' \<and> - (sqrt 3 / 2) \<le> vy u \<and> vy u \<le> sqrt 3 / 2)"
proof -
  from assms consider
      (c1) "ident = ''isometric''" "u = normalizeV (Vector3 1 1 1)"
    | (c2) "ident = ''front''" "u = Vector3 0 0 1"
    | (c3) "ident = ''back''" "u = Vector3 0 0 (- 1)"
    | (c4) "ident = ''left''" "u = Vector3 (- 1) 0 0"
    | (c5) "ident = ''right''" "u = Vector3 1 0 0"
    | (c6) "ident = ''top''" "u = Vector3 0 1 0"
    | (c7) "ident = ''bottom''" "u = Vector3 0 (- 1) 0"
    unfolding known_presets_def by fastforce
  then show ?thesis
  proof cases
    case c1
    then show ?thesis using isoDir_facts by (simp add: preset_pos_def)
  next
    case c2 then show ?thesis by (simp add: preset_pos_def lengthV_def)
  next
    case c3 then show ?thesis by (simp add: preset_pos_def lengthV_def)
  next
    case c4 then show ?thesis by (simp add: preset_pos_def lengthV_def)
  next
    case c5 then show ?thesis by (simp add: preset_pos_def lengthV_def)
  next
    case c6 then show ?thesis by (simp add: preset_pos_def lengthV_def)
  next
    case c7 then show ?thesis by (simp add: preset_pos_def lengthV_def)
  qed
qed

lemma preset_pos_unknown:
  "ident \<notin> fst ` set known_presets \<Longrightarrow> preset_pos ident = None"
  unfolding known_presets_def preset_pos_def by simp

lemma setPresetView_known:
  assumes "camera s = Some cam" "preset_pos ident = Some pos"
  shows "camera (setPresetView None ident object s) =
           Some (case controls s of
                   None \<Rightarrow> cam\<lparr>position := addV (preset_center object s) pos, up := Vector3 0 1 0\<rparr>
                 | Some ct \<Rightarrow>
                     fst (orbitControls_update
                       (cam\<lparr>position := addV (preset_center object s) pos, up := Vector3 0 1 0\<rparr>)
                       (ct\<lparr>target := preset_center object s\<rparr>)))"
    and "controls s \<noteq> None \<longrightarrow>
            map_option target (controls (setPresetView None ident object s))
              = Some (preset_center object s)"
  using assms
  by (auto simp add: setPresetView_def setPresetView_builtin_def Let_def update_controls_def
      orbitControls_update_frame split: option.splits)

lemma setPresetView_position:
  assumes cam: "camera s = Some cam" and m: "(ident, u) \<in> set known_presets"
  shows "\<exists>cam'. camera (setPresetView None ident object s) = Some cam' \<and>
     position cam' = addV (preset_center object s) (multiplyScalar
        (if controls s = None then u
         else if ident = ''top'' then Vector3 0 (cos minPolarAngle) (sin minPolarAngle)
         else if ident = ''bottom'' then Vector3 0 (cos maxPolarAngle) (sin maxPolarAngle)
         else u) 10) \<and>
     up cam' = Vector3 0 1 0"
proof (cases "controls s")
  case None
  from preset_pos_known[OF m] have p: "preset_pos ident = Some (multiplyScalar u 10)" by simp
  from setPresetView_known(1)[OF cam p, of object] None show ?thesis by simp
next
  case (Some ct)
  from preset_pos_known[OF m] have p: "preset_pos ident = Some (multiplyScalar u 10)"
    and l: "lengthV u = 1"
    and k: "ident = ''top'' \<and> u = Vector3 0 1 0 \<or> ident = ''bottom'' \<and> u = Vector3 0 (- 1) 0 \<or>
      ident \<noteq> ''top'' \<and> ident \<noteq> ''bottom'' \<and> - (sqrt 3 / 2) \<le> vy u \<and> vy u \<le> sqrt 3 / 2"
    by simp_all
  define center where "center = preset_center object s"
  define cam1 where "cam1 = cam\<lparr>position := addV center (multiplyScalar u 10), up := Vector3 0 1 0\<rparr>"
  define ct1 where "ct1 = ct\<lparr>target := center\<rparr>"
  have c: "camera (setPresetView None ident object s) = Some (fst (orbitControls_update cam1 ct1))"
    using setPresetView_known(1)[OF cam p, of object] Some
    by (simp add: cam1_def ct1_def center_def)
  have u1: "up (fst (orbitControls_update cam1 ct1)) = Vector3 0 1 0"
    by (simp add: orbitControls_update_frame cam1_def)
  have pos: "position cam1 = addV (target ct1) (multiplyScalar u 10)"
    by (simp add: cam1_def ct1_def)
  have ten: "max minDistance (min maxDistance 10) = (10::real)"
    by (simp add: minDistance_def maxDistance_def)
  from k consider (top) "ident = ''top''" "u = Vector3 0 1 0"
    | (bottom) "ident = ''bottom''" "u = Vector3 0 (- 1) 0"
    | (other) "ident \<noteq> ''top''" "ident \<noteq> ''bottom''" "- (sqrt 3 / 2) \<le> vy u" "vy u \<le> sqrt 3 / 2"
    by blast
  then have "position (fst (orbitControls_update cam1 ct1)) = addV center (multiplyScalar
        (if ident = ''top'' then Vector3 0 (cos minPolarAngle) (sin minPolarAngle)
         else if ident = ''bottom'' then Vector3 0 (cos maxPolarAngle) (sin maxPolarAngle)
         else u) 10)"
  proof cases
    case top
    have "position cam1 = addV (target ct1) (Vector3 0 (1 * 10) 0)"
      unfolding pos top by (simp add: multiplyScalar_def)
    from orbitControls_update_vertical[OF this] top show ?thesis by (simp add: ct1_def)
  next
    case bottom
    have "position cam1 = addV (target ct1) (Vector3 0 (- 1 * 10) 0)"
      unfolding pos bottom by (simp add: multiplyScalar_def)
    from orbitControls_update_vertical[OF this] bottom show ?thesis by (simp add: ct1_def)
  next
    case other
    have ten_pos: "(0::real) < 10" by simp
    from orbitControls_update_direction[OF pos l ten_pos other(3) other(4)] other(1) other(2)
    show ?thesis unfolding ten by (simp add: ct1_def)
  qed
  with c u1 Some show ?thesis by (simp add: center_def)
qed

text \<open>
  C9 (as amended). With no \<open>setPresetViewQuaternion\<close> hook installed: for every id outside
  the seven presets \<open>setPresetView\<close> returns the state unchanged (camera position, camera up
  and controls target included); for each of the seven presets, with its unit direction
  \<open>u\<close>, the camera up vector becomes \<open>(0,1,0)\<close> and the controls' target becomes \<open>center\<close>;
  the camera position becomes \<open>center + 10 * u\<close> for the five presets that do not look
  along the y axis, and for \<open>top\<close> and \<open>bottom\<close> the closing \<open>controls.update()\<close> turns the
  camera to the nearer polar limit, \<open>center + 10 * (0, cos a, sin a)\<close> with \<open>a\<close> the lower
  limit \<open>0.0001\<close> for \<open>top\<close> and the upper limit \<open>pi - 0.0001\<close> for \<open>bottom\<close>. With no
  controls there is no such call, and the position is \<open>center + 10 * u\<close> for all seven.
\<close>

theorem setPresetView_presets:
  assumes cam: "camera s = Some cam"
  shows
    "(\<forall>s0 ident. ident \<notin> fst ` set known_presets \<longrightarrow> setPresetView None ident object s0 = s0) \<and>
     (\<forall>(ident, u) \<in> set known_presets.
        lengthV u = 1 \<and>
        (\<exists>cam'. camera (setPresetView None ident object s) = Some cam' \<and>
           position cam' = addV (preset_center object s) (multiplyScalar
              (if controls s = None then u
               else if ident = ''top'' then Vector3 0 (cos minPolarAngle) (sin minPolarAngle)
               else if ident = ''bottom'' then Vector3 0 (cos maxPolarAngle) (sin maxPolarAngle)
               else u) 10) \<and>
           up cam' = Vector3 0 1 0) \<and>
        (controls s \<noteq> None \<longrightarrow>
           map_option target (controls (setPresetView None ident object s))
             = Some (preset_center object s)))"
proof -
  have unknown: "\<forall>s0 ident. ident \<notin> fst ` set known_presets \<longrightarrow>
      setPresetView None ident object s0 = s0"
    by (simp add: setPresetView_def setPresetView_builtin_def preset_pos_unknown
        split: option.splits)
  have known: "\<forall>(ident, u) \<in> set known_presets.
        lengthV u = 1 \<and>
        (\<exists>cam'. camera (setPresetView None ident object s) = Some cam' \<and>
           position cam' = addV (preset_center object s) (multiplyScalar
              (if controls s = None then u
               else if ident = ''top'' then Vector3 0 (cos minPolarAngle) (sin minPolarAngle)
               else if ident = ''bottom'' then Vector3 0 (cos maxPolarAngle) (sin maxPolarAngle)
               else u) 10) \<and>
           up cam' = Vector3 0 1 0) \<and>
        (controls s \<noteq> None \<longrightarrow>
           map_option target (controls (setPresetView None ident object s))
             = Some (preset_center object s))"
  proof (intro ballI, clarify)
    fix ident u assume m: "(ident, u) \<in> set known_presets"
    from preset_pos_known[OF m] have p: "preset_pos ident = Some (multiplyScalar u 10)"
      and l: "lengthV u = 1" by simp_all
    from setPresetView_position[OF cam m, of object] setPresetView_known(2)[OF cam p, of object] l
    show "lengthV u = 1 \<and>
        (\<exists>cam'. camera (setPresetView None ident object s) = Some cam' \<and>
           position cam' = addV (preset_center object s) (multiplyScalar
              (if controls s = None then u
               else if ident = ''top'' then Vector3 0 (cos minPolarAngle) (sin minPolarAngle)
               else if ident = ''bottom'' then Vector3 0 (cos maxPolarAngle) (sin maxPolarAngle)
               else u) 10) \<and>
           up cam' = Vector3 0 1 0) \<and>
        (controls s \<noteq> None \<longrightarrow>
           map_option target (controls (setPresetView None ident object s))
             = Some (preset_center object s))" by blast
  qed
  from unknown known show ?thesis by blast
qed

theorem setPresetView_presets_witness:
  "setPresetView None ''perspective'' None init_scene = init_scene \<and>
   map_option position (camera (setPresetView None ''front'' None init_scene))
     = Some (Vector3 0 0 10) \<and>
   map_option up (camera (setPresetView None ''front'' None init_scene)) = Some (Vector3 0 1 0) \<and>
   map_option target (controls (setPresetView None ''front'' None init_scene)) = Some zeroV"
proof -
  have h: "camera init_scene = Some init_camera" by (simp add: init_scene_def)
  have c: "controls init_scene \<noteq> None" by (simp add: init_scene_def)
  have pc: "preset_center None init_scene = zeroV" by (simp add: preset_center_def init_scene_def)
  have u: "''perspective'' \<notin> fst ` set known_presets" by (simp add: known_presets_def)
  have k: "(''front'', Vector3 0 0 1) \<in> set known_presets" by (simp add: known_presets_def)
  from setPresetView_presets[OF h, of None] have
    a: "\<forall>s0 ident. ident \<notin> fst ` set known_presets \<longrightarrow> setPresetView None ident None s0 = s0"
    and b: "\<forall>(ident, u) \<in> set known_presets.
        lengthV u = 1 \<and>
        (\<exists>cam'. camera (setPresetView None ident None init_scene) = Some cam' \<and>
           position cam' = addV (preset_center None init_scene) (multiplyScalar
              (if controls init_scene = None then u
               else if ident = ''top'' then Vector3 0 (cos minPolarAngle) (sin minPolarAngle)
               else if ident = ''bottom'' then Vector3 0 (cos maxPolarAngle) (sin maxPolarAngle)
               else u) 10) \<and>
           up cam' = Vector3 0 1 0) \<and>
        (controls init_scene \<noteq> None \<longrightarrow>
           map_option target (controls (setPresetView None ident None init_scene))
             = Some (preset_center None init_scene))"
    by blast+
  from a u have 1: "setPresetView None ''perspective'' None init_scene = init_scene" by blast
  from b k have 2: "(\<exists>cam'. camera (setPresetView None ''front'' None init_scene) = Some cam' \<and>
           position cam' = addV (preset_center None init_scene) (multiplyScalar
              (if controls init_scene = None then Vector3 0 0 1
               else if ''front'' = ''top'' then Vector3 0 (cos minPolarAngle) (sin minPolarAngle)
               else if ''front'' = ''bottom'' then Vector3 0 (cos maxPolarAngle) (sin maxPolarAngle)
               else Vector3 0 0 1) 10) \<and>
           up cam' = Vector3 0 1 0) \<and>
        (controls init_scene \<noteq> None \<longrightarrow>
           map_option target (controls (setPresetView None ''front'' None init_scene))
             = Some (preset_center None init_scene))" by blast
  from 1 2 c pc show ?thesis
    by (auto simp add: addV_def multiplyScalar_def zeroV_def)
qed

lemma sin_polar_limits_pos: "0 < sin minPolarAngle \<and> 0 < sin maxPolarAngle"
proof -
  have "minPolarAngle < pi" using pi_ge_two by (simp add: minPolarAngle_def)
  moreover have "0 < minPolarAngle" by (simp add: minPolarAngle_def)
  ultimately have a: "0 < sin minPolarAngle" by (rule sin_gt_zero[rotated])
  have "sin maxPolarAngle = sin minPolarAngle"
    by (simp add: maxPolarAngle_def minPolarAngle_def)
  with a show ?thesis by simp
qed

text \<open>
  C9 (as stated). For \<open>top\<close> the closing \<open>controls.update()\<close> finds the camera straight
  above the target, at polar angle zero, and turns it to the lower polar limit: the
  camera ends at \<open>10 * (0, cos 0.0001, sin 0.0001)\<close>, not at \<open>(0, 10, 0)\<close>. For \<open>bottom\<close> it
  finds the camera straight below, and the camera ends at the upper polar limit, not at
  \<open>(0, - 10, 0)\<close>.
\<close>

theorem setPresetView_vertical_counterexample:
  "map_option position (camera (setPresetView None ''top'' None init_scene))
   \<noteq> Some (addV (preset_center None init_scene) (multiplyScalar (Vector3 0 1 0) 10)) \<and>
   map_option position (camera (setPresetView None ''bottom'' None init_scene))
   \<noteq> Some (addV (preset_center None init_scene) (multiplyScalar (Vector3 0 (- 1) 0) 10))"
proof -
  have h: "camera init_scene = Some init_camera" by (simp add: init_scene_def)
  have c: "controls init_scene \<noteq> None" by (simp add: init_scene_def)
  have k: "(''top'', Vector3 0 1 0) \<in> set known_presets"
    "(''bottom'', Vector3 0 (- 1) 0) \<in> set known_presets"
    by (simp_all add: known_presets_def)
  from setPresetView_position[OF h k(1), of None] c
  have p: "map_option position (camera (setPresetView None ''top'' None init_scene))
      = Some (addV (preset_center None init_scene)
          (multiplyScalar (Vector3 0 (cos minPolarAngle) (sin minPolarAngle)) 10))"
    by auto
  from setPresetView_position[OF h k(2), of None] c
  have q: "map_option position (camera (setPresetView None ''bottom'' None init_scene))
      = Some (addV (preset_center None init_scene)
          (multiplyScalar (Vector3 0 (cos maxPolarAngle) (sin maxPolarAngle)) 10))"
    by auto
  have "vz (addV (preset_center None init_scene)
          (multiplyScalar (Vector3 0 (cos minPolarAngle) (sin minPolarAngle)) 10))
      \<noteq> vz (addV (preset_center None init_scene) (multiplyScalar (Vector3 0 1 0) 10))"
    using sin_polar_limits_pos by (simp add: addV_def multiplyScalar_def)
  then have n1: "addV (preset_center None init_scene)
          (multiplyScalar (Vector3 0 (cos minPolarAngle) (sin minPolarAngle)) 10)
      \<noteq> addV (preset_center None init_scene) (multiplyScalar (Vector3 0 1 0) 10)"
    by metis
  have "vz (addV (preset_center None init_scene)
          (multiplyScalar (Vector3 0 (cos maxPolarAngle) (sin maxPolarAngle)) 10))
      \<noteq> vz (addV (preset_center None init_scene) (multiplyScalar (Vector3 0 (- 1) 0) 10))"
    using sin_polar_limits_pos by (simp add: addV_def multiplyScalar_def)
  then have n2: "addV (preset_center None init_scene)
          (multiplyScalar (Vector3 0 (cos maxPolarAngle) (sin maxPolarAngle)) 10)
      \<noteq> addV (preset_center None init_scene) (multiplyScalar (Vector3 0 (- 1) 0) 10)"
    by metis
  from n1 n2 show ?thesis unfolding p q by simp
qed

subsection \<open>The axes widget\<close>

text \<open>
  C4. \<open>syncWithCamera\<close> with a plain vector as target places the widget camera at
  \<open>3 * normalize(camera.position - target)\<close>, copies the main camera's up vector and
  resets the axes group's quaternion to the identity; with an \<open>Object3D\<close> as target the
  axes group's quaternion becomes \<open>invert(qCamera) * qModel\<close>, which is the inverse of the
  camera quaternion times the model quaternion (\<open>qCamera * qAxes = qModel\<close>) for a
  camera quaternion of unit length, as world quaternions are. On every frame \<open>animate\<close>
  synchronizes the widget by \<open>syncWithCamera(camera, controls.target)\<close>.
\<close>

theorem syncWithCamera_axes_widget:
  "(\<forall>t. position (ax_camera (syncWithCamera gq (Some c) (VectorTarget t) a))
          = multiplyScalar (normalizeV (subV (position c) t)) 3 \<and>
        up (ax_camera (syncWithCamera gq (Some c) (VectorTarget t) a)) = up c \<and>
        axesGroup (syncWithCamera gq (Some c) (VectorTarget t) a) = identityQ) \<and>
   (\<forall>qModel. axesGroup (syncWithCamera gq (Some c) (ObjectTarget (Some qModel)) a)
          = multiplyQuaternions (invertQ (gq c)) qModel) \<and>
   (\<forall>qModel. q_lengthSq (gq c) = 1 \<longrightarrow>
        multiplyQuaternions (gq c)
          (axesGroup (syncWithCamera gq (Some c) (ObjectTarget (Some qModel)) a)) = qModel) \<and>
   (\<forall>s ax ct. axesActor s = Some ax \<and> camera s = Some c \<and> controls s = Some ct \<longrightarrow>
        axesActor (animate gq s)
          = Some (syncWithCamera gq (Some c) (VectorTarget (target ct)) ax))"
proof -
  have vec: "\<forall>t. position (ax_camera (syncWithCamera gq (Some c) (VectorTarget t) a))
          = multiplyScalar (normalizeV (subV (position c) t)) 3 \<and>
        up (ax_camera (syncWithCamera gq (Some c) (VectorTarget t) a)) = up c \<and>
        axesGroup (syncWithCamera gq (Some c) (VectorTarget t) a) = identityQ"
    by (simp add: syncWithCamera_def Let_def)
  have obj: "\<forall>qModel. axesGroup (syncWithCamera gq (Some c) (ObjectTarget (Some qModel)) a)
          = multiplyQuaternions (invertQ (gq c)) qModel"
    by (simp add: syncWithCamera_def Let_def multiplyQ_def)
  have inv: "\<forall>qModel. q_lengthSq (gq c) = 1 \<longrightarrow>
        multiplyQuaternions (gq c)
          (axesGroup (syncWithCamera gq (Some c) (ObjectTarget (Some qModel)) a)) = qModel"
    using obj by (simp add: multiplyQuaternions_invertQ)
  have frame: "\<forall>s ax ct. axesActor s = Some ax \<and> camera s = Some c \<and> controls s = Some ct \<longrightarrow>
        axesActor (animate gq s)
          = Some (syncWithCamera gq (Some c) (VectorTarget (target ct)) ax)"
    by (simp add: animate_def Let_def)
  from vec obj inv frame show ?thesis by blast
qed

theorem syncWithCamera_axes_widget_witness:
  "multiplyQuaternions identityQ
     (axesGroup (syncWithCamera (\<lambda>_. identityQ) (Some init_camera)
        (ObjectTarget (Some (Quaternion 0 1 0 0))) init_axes)) = Quaternion 0 1 0 0 \<and>
   axesActor (animate (\<lambda>_. identityQ) init_scene)
     = Some (syncWithCamera (\<lambda>_. identityQ) (Some init_camera) (VectorTarget zeroV) init_axes)"
proof -
  have u: "q_lengthSq ((\<lambda>_. identityQ) init_camera) = 1" by (simp add: q_lengthSq_def identityQ_def)
  have f: "axesActor init_scene = Some init_axes \<and> camera init_scene = Some init_camera \<and>
     controls init_scene = Some \<lparr>target = zeroV, enableRotate = False, updates = 0\<rparr>" by (simp add: init_scene_def)
  from syncWithCamera_axes_widget[of "\<lambda>_. identityQ" init_camera init_axes] u f
  show ?thesis by fastforce
qed

subsection \<open>Pan and model rotation\<close>

lemma addScaledVector_addV: "addScaledVector a v k = addV a (multiplyScalar v k)"
  by (simp add: addScaledVector_def addV_def multiplyScalar_def)

lemma subV_addV_addV: "subV (addV p v) (addV t v) = subV p t"
  by (simp add: subV_def addV_def)

lemma pan_onPointerMove_pan:
  assumes "rotating d" "activePointerId d = None \<or> activePointerId d = Some (pointerId ev)"
    "mode d = Some Pan" "camera s = Some cam" "controls s = Some ct"
  shows "snd (pan_onPointerMove gwd perfNow w h ev d s) =
     s\<lparr>controls := Some (ct\<lparr>target := addV (target ct)
                  (pan_panOffset gwd s cam w h (clientX ev - lastX d) (clientY ev - lastY d)
                     (pointer_dt (event_now perfNow ev) (lastPointerTime d))),
                updates := Suc (updates ct)\<rparr>),
       camera := Some (cam\<lparr>position := addV (position cam)
                  (pan_panOffset gwd s cam w h (clientX ev - lastX d) (clientY ev - lastY d)
                     (pointer_dt (event_now perfNow ev) (lastPointerTime d)))\<rparr>)\<rparr>"
  using assms by (auto simp add: pan_onPointerMove_def Let_def)

text \<open>
  The pan step leaves the camera's offset from the target as it was, so a camera within
  the controls' limits before the step is within them after it, and the step's closing
  \<open>controls.update()\<close> finds nothing to move.
\<close>

lemma pan_step_keeps_within_limits:
  assumes rot: "rotating d"
    and ptr: "activePointerId d = None \<or> activePointerId d = Some (pointerId ev)"
    and pan: "mode d = Some Pan"
    and cam: "camera s = Some cam"
    and ctl: "controls s = Some ct"
    and lim: "within_limits cam ct"
  shows "\<exists>cam' ct'.
       camera (snd (pan_onPointerMove gwd perfNow w h ev d s)) = Some cam' \<and>
       controls (snd (pan_onPointerMove gwd perfNow w h ev d s)) = Some ct' \<and>
       within_limits cam' ct' \<and>
       position (fst (orbitControls_update cam' ct')) = position cam' \<and>
       target (snd (orbitControls_update cam' ct')) = target ct'"
proof -
  define off where "off = pan_panOffset gwd s cam w h (clientX ev - lastX d) (clientY ev - lastY d)
      (pointer_dt (event_now perfNow ev) (lastPointerTime d))"
  define cam1 where "cam1 = cam\<lparr>position := addV (position cam) off\<rparr>"
  define ct1 where "ct1 = ct\<lparr>target := addV (target ct) off, updates := Suc (updates ct)\<rparr>"
  have c: "camera (snd (pan_onPointerMove gwd perfNow w h ev d s)) = Some cam1"
    and k: "controls (snd (pan_onPointerMove gwd perfNow w h ev d s)) = Some ct1"
    unfolding pan_onPointerMove_pan[OF rot ptr pan cam ctl]
    by (simp_all add: cam1_def ct1_def off_def)
  have "subV (position cam1) (target ct1) = subV (position cam) (target ct)"
    by (simp add: cam1_def ct1_def subV_addV_addV)
  with lim have w1: "within_limits cam1 ct1" by (simp add: within_limits_def)
  from orbitControls_update_fixed[OF w1]
  have f: "position (fst (orbitControls_update cam1 ct1)) = position cam1" .
  have t: "target (snd (orbitControls_update cam1 ct1)) = target ct1"
    by (simp add: orbitControls_update_frame)
  from c k w1 f t show ?thesis by blast
qed

text \<open>
  C3. In a pan move (Shift with the middle button, controls present) one and the same
  offset \<open>panOffset = right * moveX + up * moveY\<close> is added to the controls' target and to
  the camera position, so the vector from the target to the camera is unchanged, and the
  model group (its quaternion included) is not touched. The canvas is taken to have a
  non-zero width and height: the world units per pixel are not finite numbers otherwise.
\<close>

theorem pan_step_moves_camera_and_target_together:
  fixes gwd :: "camera \<Rightarrow> vec3" and perfNow w h :: real
    and ev :: pointer_event and d :: pan_drag and s :: scene and cam :: camera
  defines "dx \<equiv> clientX ev - lastX d"
    and "dy \<equiv> clientY ev - lastY d"
    and "dt \<equiv> pointer_dt (event_now perfNow ev) (lastPointerTime d)"
  defines "panOffset \<equiv>
      addV (multiplyScalar (getCameraRight gwd cam) (pan_moveX s w h dx dy dt))
           (multiplyScalar (normalizeV (up cam)) (pan_moveY s h dx dy dt))"
  assumes rot: "rotating d"
    and ptr: "activePointerId d = None \<or> activePointerId d = Some (pointerId ev)"
    and pan: "mode d = Some Pan"
    and cam: "camera s = Some cam"
    and ctl: "controls s = Some ct"
    and size: "w \<noteq> 0 \<and> h \<noteq> 0"
  shows
    "\<exists>cam' ct'.
       camera (snd (pan_onPointerMove gwd perfNow w h ev d s)) = Some cam' \<and>
       controls (snd (pan_onPointerMove gwd perfNow w h ev d s)) = Some ct' \<and>
       position cam' = addV (position cam) panOffset \<and>
       target ct' = addV (target ct) panOffset \<and>
       subV (position cam') (target ct') = subV (position cam) (target ct) \<and>
       artifactGroup (snd (pan_onPointerMove gwd perfNow w h ev d s)) = artifactGroup s"
proof -
  have off: "pan_panOffset gwd s cam w h dx dy dt = panOffset"
    by (simp add: pan_panOffset_def panOffset_def Let_def addScaledVector_addV)
  show ?thesis
    unfolding pan_onPointerMove_pan[OF rot ptr pan cam ctl]
    using off by (simp add: dx_def dy_def dt_def subV_addV_addV)
qed

theorem pan_step_moves_camera_and_target_together_witness:
  "\<exists>cam' ct'.
     camera (snd (pan_onPointerMove (\<lambda>_. Vector3 0 0 (- 1)) 0 800 600
        \<lparr>button = 1, shiftKey = True, ctrlKey = False, altKey = False,
         clientX = 10, clientY = 0, pointerId = 1, timeStamp = 16, onCanvas = True\<rparr>
        ((setupQuaternionRotation init_scene)\<lparr>rotating := True, activePointerId := Some 1,
           lastPointerTime := Some 0, mode := Some Pan\<rparr>) init_scene)) = Some cam' \<and>
     controls (snd (pan_onPointerMove (\<lambda>_. Vector3 0 0 (- 1)) 0 800 600
        \<lparr>button = 1, shiftKey = True, ctrlKey = False, altKey = False,
         clientX = 10, clientY = 0, pointerId = 1, timeStamp = 16, onCanvas = True\<rparr>
        ((setupQuaternionRotation init_scene)\<lparr>rotating := True, activePointerId := Some 1,
           lastPointerTime := Some 0, mode := Some Pan\<rparr>) init_scene)) = Some ct' \<and>
     subV (position cam') (target ct') = subV (position init_camera) zeroV"
proof -
  let ?d = "(setupQuaternionRotation init_scene)\<lparr>rotating := True, activePointerId := Some 1,
           lastPointerTime := Some 0, mode := Some Pan\<rparr>"
  let ?ev = "\<lparr>button = 1, shiftKey = True, ctrlKey = False, altKey = False,
         clientX = 10, clientY = 0, pointerId = 1, timeStamp = 16, onCanvas = True\<rparr>"
  have h1: "rotating ?d" by simp
  have h2: "activePointerId ?d = None \<or> activePointerId ?d = Some (pointerId ?ev)" by simp
  have h3: "mode ?d = Some Pan" by simp
  have h4: "camera init_scene = Some init_camera" by (simp add: init_scene_def)
  have h5: "controls init_scene = Some \<lparr>target = zeroV, enableRotate = False, updates = 0\<rparr>"
    by (simp add: init_scene_def)
  have h6: "(800::real) \<noteq> 0 \<and> (600::real) \<noteq> 0" by simp
  from pan_step_moves_camera_and_target_together[where gwd = "\<lambda>_. Vector3 0 0 (- 1)"
      and w = 800 and h = 600 and perfNow = 0, OF h1 h2 h3 h4 h5 h6]
  show ?thesis by fastforce
qed

lemma pointer_dt_ge_1: "1 \<le> pointer_dt now lastTime"
  by (simp add: pointer_dt_def)

lemma rotate_speedMult_spec: "rotate_speedMult s dx dy dt = spec_rotate_m s dx dy dt"
  by (simp add: rotate_speedMult_def spec_rotate_m_def pointer_speed_def power2_eq_square)

lemma spec_rotate_m_range:
  "rotationMinMult s \<le> rotationMaxMult s \<Longrightarrow>
     rotationMinMult s \<le> spec_rotate_m s dx dy dt \<and> spec_rotate_m s dx dy dt \<le> rotationMaxMult s"
  by (simp add: spec_rotate_m_def)

lemma rotate_q_spec:
  "rotSpeed0 = rotationBaseSpeed s \<Longrightarrow>
     rotate_q gwd rotSpeed0 s cam dx dy dt = spec_rotate_q (up cam) (gwd cam) s dx dy dt"
  by (simp add: rotate_q_def spec_rotate_q_def Let_def getCameraRight_def rotate_speedMult_spec)

lemma pan_onPointerMove_rotate:
  assumes "rotating d" "activePointerId d = None \<or> activePointerId d = Some (pointerId ev)"
    "mode d = Some Rotate" "camera s = Some cam" "artifactGroup s = Some g"
  shows "snd (pan_onPointerMove gwd perfNow w h ev d s) =
     s\<lparr>artifactGroup := Some (g\<lparr>quaternion := premultiply (quaternion g)
         (rotate_q gwd (rotSpeed d) s cam (clientX ev - lastX d) (clientY ev - lastY d)
            (pointer_dt (event_now perfNow ev) (lastPointerTime d)))\<rparr>)\<rparr>"
  using assms by (auto simp add: pan_onPointerMove_def Let_def)

text \<open>
  The rotate branch where it agrees with the specification: as long as
  \<open>rotationBaseSpeed\<close> still has the value the handler read into \<open>rotSpeed\<close> when it was
  installed, a rotate-mode move premultiplies the model group's quaternion by
  \<open>pitchQ * yawQ\<close> as the specification describes it, with the multiplier in its range,
  and leaves the camera and the controls alone.
\<close>

lemma rotate_branch_with_captured_speed:
  fixes gwd :: "camera \<Rightarrow> vec3" and perfNow w h :: real
    and ev :: pointer_event and d :: pan_drag and s :: scene and cam :: camera
  defines "dx \<equiv> clientX ev - lastX d"
    and "dy \<equiv> clientY ev - lastY d"
    and "dt \<equiv> pointer_dt (event_now perfNow ev) (lastPointerTime d)"
  assumes rot: "rotating d"
    and ptr: "activePointerId d = None \<or> activePointerId d = Some (pointerId ev)"
    and rotate: "mode d = Some Rotate"
    and cam: "camera s = Some cam"
    and grp: "artifactGroup s = Some g"
    and speed: "rotSpeed d = rotationBaseSpeed s"
  shows
    "1 \<le> dt \<and>
     map_option quaternion (artifactGroup (snd (pan_onPointerMove gwd perfNow w h ev d s)))
       = Some (multiplyQuaternions (spec_rotate_q (up cam) (gwd cam) s dx dy dt) (quaternion g)) \<and>
     (rotationMinMult s \<le> rotationMaxMult s \<longrightarrow>
        rotationMinMult s \<le> spec_rotate_m s dx dy dt \<and>
        spec_rotate_m s dx dy dt \<le> rotationMaxMult s) \<and>
     camera (snd (pan_onPointerMove gwd perfNow w h ev d s)) = camera s \<and>
     controls (snd (pan_onPointerMove gwd perfNow w h ev d s)) = controls s"
proof -
  have q: "rotate_q gwd (rotSpeed d) s cam dx dy dt = spec_rotate_q (up cam) (gwd cam) s dx dy dt"
    using speed by (rule rotate_q_spec)
  have dt: "1 \<le> dt" unfolding dt_def by (rule pointer_dt_ge_1)
  have rng: "rotationMinMult s \<le> rotationMaxMult s \<longrightarrow>
        rotationMinMult s \<le> spec_rotate_m s dx dy dt \<and>
        spec_rotate_m s dx dy dt \<le> rotationMaxMult s"
    using spec_rotate_m_range by blast
  have st: "map_option quaternion (artifactGroup (snd (pan_onPointerMove gwd perfNow w h ev d s)))
       = Some (multiplyQuaternions (spec_rotate_q (up cam) (gwd cam) s dx dy dt) (quaternion g)) \<and>
     camera (snd (pan_onPointerMove gwd perfNow w h ev d s)) = camera s \<and>
     controls (snd (pan_onPointerMove gwd perfNow w h ev d s)) = controls s"
    unfolding pan_onPointerMove_rotate[OF rot ptr rotate cam grp]
    using q by (simp add: dx_def dy_def dt_def premultiply_def)
  from dt rng st show ?thesis by blast
qed

text \<open>
  No pointer event leads into the rotate branch: \<open>onPointerDown\<close> sets \<open>mode\<close> to \<open>'pan'\<close>
  only, and the other handlers leave it as it is. So over every run of pointer events
  after the installation \<open>mode\<close> is never \<open>'rotate'\<close>, and the model group is as it was.
\<close>

lemma pan_handle_mode:
  assumes "mode (fst st) \<noteq> Some Rotate"
  shows "mode (fst (pan_handle gwd i st)) \<noteq> Some Rotate \<and>
         artifactGroup (snd (pan_handle gwd i st)) = artifactGroup (snd st)"
proof (cases st)
  case (Pair d s)
  with assms have m: "mode d \<noteq> Some Rotate" by simp
  show ?thesis
  proof (cases i)
    case (PointerDown perfNow ev)
    with Pair m show ?thesis by (simp add: pan_onPointerDown_def)
  next
    case (PointerMove perfNow w h ev)
    with Pair m show ?thesis
      by (cases "mode d")
         (auto simp add: pan_onPointerMove_def Let_def split: option.splits drag_mode.splits)
  next
    case (PointerUp ev)
    with Pair m show ?thesis by (simp add: pan_onPointerUp_def)
  next
    case (PointerCancel ev)
    with Pair m show ?thesis by (simp add: pan_onPointerCancel_def)
  qed
qed

lemma pan_run_mode:
  assumes "mode (fst st) \<noteq> Some Rotate"
  shows "mode (fst (pan_run gwd inputs st)) \<noteq> Some Rotate \<and>
         artifactGroup (snd (pan_run gwd inputs st)) = artifactGroup (snd st)"
  using assms
proof (induction inputs arbitrary: st)
  case Nil
  then show ?case by (simp add: pan_run_def)
next
  case (Cons i inputs)
  from pan_handle_mode[OF Cons.prems, of gwd i]
  have a: "mode (fst (pan_handle gwd i st)) \<noteq> Some Rotate"
    and b: "artifactGroup (snd (pan_handle gwd i st)) = artifactGroup (snd st)" by simp_all
  from Cons.IH[OF a] b show ?case by (simp add: pan_run_def)
qed

lemma pan_run_never_rotates:
  "mode (fst (pan_run gwd inputs (setupQuaternionRotation s0, s))) \<noteq> Some Rotate \<and>
   artifactGroup (snd (pan_run gwd inputs (setupQuaternionRotation s0, s))) = artifactGroup s"
  using pan_run_mode[of "(setupQuaternionRotation s0, s)" gwd inputs]
  by (simp add: setupQuaternionRotation_def)



subsection \<open>Camera orbit\<close>

lemma q_lengthSq_axis_nonzero:
  assumes "v \<noteq> zeroV \<or> cos (t / 2) \<noteq> 0"
  shows "q_lengthSq (setFromAxisAngle (normalizeV v) t) \<noteq> 0"
proof (cases "lengthSq v = 0")
  case False
  then have "lengthSq (normalizeV v) = 1" by (rule lengthSq_normalizeV)
  then have "q_lengthSq (setFromAxisAngle (normalizeV v) t) = (sin (t / 2))\<^sup>2 + (cos (t / 2))\<^sup>2"
    by (simp add: q_lengthSq_setFromAxisAngle)
  then show ?thesis by simp
next
  case True
  then have z: "v = zeroV" by (simp add: lengthSq_zero_iff)
  with assms have c: "cos (t / 2) \<noteq> 0" by simp
  have "normalizeV v = v" using True by (rule normalizeV_zero)
  then have "q_lengthSq (setFromAxisAngle (normalizeV v) t) = (cos (t / 2))\<^sup>2"
    using True by (simp add: q_lengthSq_setFromAxisAngle)
  then show ?thesis using c by simp
qed

lemma lengthV_setLength_zero:
  assumes "lengthSq v = 0"
  shows "lengthV (setLength v k) = 0"
proof -
  have "normalizeV v = v" using assms by (rule normalizeV_zero)
  then have "lengthSq (setLength v k) = 0"
    using assms by (simp add: setLength_def lengthSq_multiplyScalar)
  then show ?thesis by (simp add: lengthV_lengthSq)
qed

lemma orbit_camera_distance:
  assumes up_ok: "up cam \<noteq> zeroV \<or> cos (az / 2) \<noteq> 0"
    and right_ok: "crossVectors (normalizeV (up cam)) (normalizeV (subV (position cam) tgt)) \<noteq> zeroV
                   \<or> cos (el / 2) \<noteq> 0"
  shows "lengthV (subV (position (orbit_camera az el tgt cam)) tgt)
           = lengthV (subV (position cam) tgt)"
proof -
  define offset where "offset = subV (position cam) tgt"
  define viewUp where "viewUp = normalizeV (up cam)"
  define a where "a = setFromAxisAngle viewUp az"
  define e where "e = setFromAxisAngle (normalizeV (crossVectors viewUp (normalizeV offset))) el"
  define c where "c = multiplyQuaternions e a"
  define offset1 where "offset1 = applyQuaternion offset c"
  have pos: "position (orbit_camera az el tgt cam) = addV tgt (setLength offset1 (lengthV offset))"
    by (simp add: orbit_camera_def Let_def offset1_def c_def e_def a_def viewUp_def offset_def)
  have qa: "q_lengthSq a \<noteq> 0"
    unfolding a_def viewUp_def using up_ok by (rule q_lengthSq_axis_nonzero)
  have qe: "q_lengthSq e \<noteq> 0"
    unfolding e_def viewUp_def offset_def using right_ok by (rule q_lengthSq_axis_nonzero)
  have qc: "q_lengthSq c \<noteq> 0"
    using qa qe by (simp add: c_def q_lengthSq_multiplyQuaternions)
  have l1: "lengthSq offset1 = q_lengthSq c * q_lengthSq c * lengthSq offset"
    by (simp add: offset1_def lengthSq_applyQuaternion)
  have "lengthV (setLength offset1 (lengthV offset)) = lengthV offset"
  proof (cases "lengthSq offset = 0")
    case True
    then have "lengthSq offset1 = 0" using l1 by simp
    then have "lengthV (setLength offset1 (lengthV offset)) = 0" by (rule lengthV_setLength_zero)
    moreover have "lengthV offset = 0" using True by (simp add: lengthV_lengthSq)
    ultimately show ?thesis by simp
  next
    case False
    then have nz: "lengthSq offset1 \<noteq> 0" using l1 qc by simp
    have "0 \<le> lengthV offset" by (simp add: lengthV_lengthSq lengthSq_nonneg)
    with nz show ?thesis by (rule lengthV_setLength)
  qed
  then show ?thesis by (simp add: pos subV_addV offset_def)
qed

lemma orbit_onPointerMove_state:
  assumes "rotating d" "activePointerId d = None \<or> activePointerId d = Some (pointerId ev)"
    "camera s = Some cam"
  shows "snd (orbit_onPointerMove perfNow w h ev d s) =
     update_controls (s\<lparr>camera := Some (orbit_camera
        (orbit_azimuthAngle s w (clientX ev - lastX d) (clientY ev - lastY d)
           (pointer_dt (event_now perfNow ev) (lastPointerTime d)))
        (orbit_elevationAngle s h (clientX ev - lastX d) (clientY ev - lastY d)
           (pointer_dt (event_now perfNow ev) (lastPointerTime d)))
        (case controls s of Some ct \<Rightarrow> target ct | None \<Rightarrow> zeroV) cam)\<rparr>)"
  using assms by (auto simp add: orbit_onPointerMove_def Let_def)

lemma orbit_step_within_limits:
  assumes "rotating d" "activePointerId d = None \<or> activePointerId d = Some (pointerId ev)"
    "camera s = Some cam" "controls s = Some ct"
  shows "\<exists>cam' ct'. camera (snd (orbit_onPointerMove perfNow w h ev d s)) = Some cam' \<and>
           controls (snd (orbit_onPointerMove perfNow w h ev d s)) = Some ct' \<and>
           within_limits cam' ct'"
  unfolding orbit_onPointerMove_state[OF assms(1) assms(2) assms(3)]
  using assms(4) by (intro update_controls_within_limits) simp_all

lemma aim_orbit_camera: "aim (orbit_camera az el tgt cam) = Some tgt"
  by (simp add: orbit_camera_def Let_def)

text \<open>
  C1. An orbit move keeps the distance from the camera to the orbit target and aims the
  camera at the target; the target itself is not moved. The statement is one of exact
  arithmetic, and so excludes the two steps in which an exact rotation quaternion is
  zero: the camera's up vector is not the zero vector or the azimuth is not a half turn,
  and the up vector is not parallel to the offset or the elevation is not a half turn
  (no floating-point cosine is zero, so the program has no such step). The camera starts
  within the controls' distance limits, where \<open>init()\<close> puts it and every call of
  \<open>controls.update()\<close> leaves it (lemmas \<open>init_within_limits\<close> and
  \<open>orbitControls_update_establishes\<close>); the step's own closing call keeps the distance
  there. The canvas is taken to have a non-zero width and height: the two
  angles are not finite numbers otherwise.
\<close>

theorem orbit_step_preserves_distance:
  fixes perfNow w h :: real
    and ev :: pointer_event and d :: drag and s :: scene and cam :: camera
  defines "dx \<equiv> clientX ev - lastX d"
    and "dy \<equiv> clientY ev - lastY d"
    and "dt \<equiv> pointer_dt (event_now perfNow ev) (lastPointerTime d)"
    and "tgt \<equiv> (case controls s of Some ct \<Rightarrow> target ct | None \<Rightarrow> zeroV)"
  assumes rot: "rotating d"
    and ptr: "activePointerId d = None \<or> activePointerId d = Some (pointerId ev)"
    and cam: "camera s = Some cam"
    and up_ok: "up cam \<noteq> zeroV \<or> cos (orbit_azimuthAngle s w dx dy dt / 2) \<noteq> 0"
    and right_ok:
      "crossVectors (normalizeV (up cam)) (normalizeV (subV (position cam) tgt)) \<noteq> zeroV
       \<or> cos (orbit_elevationAngle s h dx dy dt / 2) \<noteq> 0"
    and size: "w \<noteq> 0 \<and> h \<noteq> 0"
    and limits: "controls s \<noteq> None \<longrightarrow>
       minDistance \<le> lengthV (subV (position cam) tgt) \<and>
       lengthV (subV (position cam) tgt) \<le> maxDistance"
  shows
    "\<exists>cam'. camera (snd (orbit_onPointerMove perfNow w h ev d s)) = Some cam' \<and>
       lengthV (subV (position cam') tgt) = lengthV (subV (position cam) tgt) \<and>
       aim cam' = Some tgt \<and>
       map_option target (controls (snd (orbit_onPointerMove perfNow w h ev d s)))
         = map_option target (controls s)"
proof -
  define cam1 where "cam1 = orbit_camera (orbit_azimuthAngle s w dx dy dt)
      (orbit_elevationAngle s h dx dy dt) tgt cam"
  have st: "snd (orbit_onPointerMove perfNow w h ev d s) = update_controls (s\<lparr>camera := Some cam1\<rparr>)"
    using orbit_onPointerMove_state[OF rot ptr cam, of perfNow w h]
    by (simp add: cam1_def dx_def dy_def dt_def tgt_def)
  have d1: "lengthV (subV (position cam1) tgt) = lengthV (subV (position cam) tgt)"
    unfolding cam1_def using up_ok right_ok by (rule orbit_camera_distance)
  have a1: "aim cam1 = Some tgt" unfolding cam1_def by (rule aim_orbit_camera)
  show ?thesis
  proof (cases "controls s")
    case None
    then have "snd (orbit_onPointerMove perfNow w h ev d s) = s\<lparr>camera := Some cam1\<rparr>"
      unfolding st by (simp add: update_controls_def)
    with d1 a1 None show ?thesis by simp
  next
    case (Some ct)
    then have t: "tgt = target ct" by (simp add: tgt_def)
    from Some have c: "camera (snd (orbit_onPointerMove perfNow w h ev d s))
        = Some (fst (orbitControls_update cam1 ct))"
      and k: "controls (snd (orbit_onPointerMove perfNow w h ev d s))
        = Some (snd (orbitControls_update cam1 ct))"
      unfolding st by (simp_all add: update_controls_def)
    from limits Some have lim: "minDistance \<le> lengthV (subV (position cam) tgt)"
      "lengthV (subV (position cam) tgt) \<le> maxDistance" by simp_all
    have "lengthV (subV (position (fst (orbitControls_update cam1 ct))) tgt)
        = max minDistance (min maxDistance (lengthV (subV (position cam1) tgt)))"
      unfolding t by (rule orbitControls_update_distance)
    also have "\<dots> = lengthV (subV (position cam) tgt)" unfolding d1 using lim by linarith
    finally have d2: "lengthV (subV (position (fst (orbitControls_update cam1 ct))) tgt)
        = lengthV (subV (position cam) tgt)" .
    have a2: "aim (fst (orbitControls_update cam1 ct)) = Some tgt"
      unfolding t by (simp add: orbitControls_update_frame)
    have t2: "target (snd (orbitControls_update cam1 ct)) = target ct"
      by (simp add: orbitControls_update_frame)
    from c k d2 a2 t2 Some show ?thesis by simp
  qed
qed

lemma sqrt_100: "sqrt 100 = 10"
  using real_sqrt_abs[of 10] by simp

theorem orbit_step_preserves_distance_witness:
  "\<exists>cam'. camera (snd (orbit_onPointerMove 0 800 600
        \<lparr>button = 1, shiftKey = False, ctrlKey = False, altKey = False,
         clientX = 10, clientY = 5, pointerId = 1, timeStamp = 16, onCanvas = True\<rparr>
        (setupCameraQuaternionOrbit\<lparr>rotating := True, activePointerId := Some 1,
           lastPointerTime := Some 0\<rparr>)
        (init_scene\<lparr>camera := Some (init_camera\<lparr>position := Vector3 0 0 10\<rparr>)\<rparr>))) = Some cam' \<and>
     lengthV (subV (position cam') zeroV) = lengthV (subV (Vector3 0 0 10) zeroV) \<and>
     aim cam' = Some zeroV"
proof -
  let ?cam = "init_camera\<lparr>position := Vector3 0 0 10\<rparr>"
  let ?s = "init_scene\<lparr>camera := Some ?cam\<rparr>"
  let ?d = "setupCameraQuaternionOrbit\<lparr>rotating := True, activePointerId := Some 1,
           lastPointerTime := Some 0\<rparr>"
  let ?ev = "\<lparr>button = 1, shiftKey = False, ctrlKey = False, altKey = False,
         clientX = 10, clientY = 5, pointerId = 1, timeStamp = 16, onCanvas = True\<rparr>"
  have h1: "rotating ?d" by simp
  have h2: "activePointerId ?d = None \<or> activePointerId ?d = Some (pointerId ?ev)" by simp
  have h3: "camera ?s = Some ?cam" by simp
  have t: "(case controls ?s of Some ct \<Rightarrow> target ct | None \<Rightarrow> zeroV) = zeroV"
    by (simp add: init_scene_def)
  have u: "up ?cam \<noteq> zeroV" by (simp add: init_camera_def zeroV_def)
  have n1: "normalizeV (Vector3 0 1 0) = Vector3 0 1 0"
    by (simp add: normalizeV_def lengthV_def divideScalar_def multiplyScalar_def)
  have n2: "normalizeV (Vector3 0 0 10) = Vector3 0 0 1"
    by (simp add: normalizeV_def lengthV_def divideScalar_def multiplyScalar_def sqrt_100)
  have r: "crossVectors (normalizeV (up ?cam)) (normalizeV (subV (position ?cam) zeroV)) \<noteq> zeroV"
    by (simp add: init_camera_def subV_def zeroV_def n1 n2 crossVectors_def)
  have l10: "lengthV (subV (position ?cam) zeroV) = 10"
    by (simp add: lengthV_def subV_def zeroV_def sqrt_100)
  have h4: "up ?cam \<noteq> zeroV \<or> cos (orbit_azimuthAngle ?s 800 (clientX ?ev - lastX ?d)
      (clientY ?ev - lastY ?d) (pointer_dt (event_now 0 ?ev) (lastPointerTime ?d)) / 2) \<noteq> 0"
    using u by blast
  have h5: "crossVectors (normalizeV (up ?cam))
       (normalizeV (subV (position ?cam) (case controls ?s of Some ct \<Rightarrow> target ct | None \<Rightarrow> zeroV)))
        \<noteq> zeroV
      \<or> cos (orbit_elevationAngle ?s 600 (clientX ?ev - lastX ?d)
      (clientY ?ev - lastY ?d) (pointer_dt (event_now 0 ?ev) (lastPointerTime ?d)) / 2) \<noteq> 0"
    using r unfolding t by blast
  have h6: "(800::real) \<noteq> 0 \<and> (600::real) \<noteq> 0" by simp
  have h7: "controls ?s \<noteq> None \<longrightarrow>
       minDistance \<le> lengthV (subV (position ?cam) (case controls ?s of Some ct \<Rightarrow> target ct | None \<Rightarrow> zeroV)) \<and>
       lengthV (subV (position ?cam) (case controls ?s of Some ct \<Rightarrow> target ct | None \<Rightarrow> zeroV)) \<le> maxDistance"
    unfolding t l10 by (simp add: minDistance_def maxDistance_def)
  from orbit_step_preserves_distance[OF h1 h2 h3 h4 h5 h6 h7]
  obtain cam' where c: "camera (snd (orbit_onPointerMove 0 800 600 ?ev ?d ?s)) = Some cam'"
    and l: "lengthV (subV (position cam') (case controls ?s of Some ct \<Rightarrow> target ct | None \<Rightarrow> zeroV))
        = lengthV (subV (position ?cam) (case controls ?s of Some ct \<Rightarrow> target ct | None \<Rightarrow> zeroV))"
    and a: "aim cam' = Some (case controls ?s of Some ct \<Rightarrow> target ct | None \<Rightarrow> zeroV)"
    by blast
  have p: "position ?cam = Vector3 0 0 10" by simp
  from c l a show ?thesis unfolding t p by blast
qed

subsection \<open>Rotation by an angle\<close>

lemma lengthV_zero_iff: "lengthV v = 0 \<longleftrightarrow> v = zeroV"
  by (simp add: lengthV_lengthSq lengthSq_zero_iff)

lemma normalizeV_direction:
  "normalizeV v = Vector3 (vx v / lengthV v) (vy v / lengthV v) (vz v / lengthV v)"
proof (cases "lengthV v = 0")
  case True
  then have "v = zeroV" by (simp add: lengthV_zero_iff)
  then show ?thesis
    by (simp add: normalizeV_def divideScalar_def multiplyScalar_def zeroV_def lengthV_def)
next
  case False
  then show ?thesis by (simp add: normalizeV_def divideScalar_def multiplyScalar_def)
qed

lemma normalizeV_unit: "lengthV v = 1 \<Longrightarrow> normalizeV v = v"
  by (simp add: normalizeV_direction)

lemma normalizeV_idem: "normalizeV (normalizeV v) = normalizeV v"
proof (cases "lengthSq v = 0")
  case True
  then show ?thesis by (simp add: normalizeV_zero)
next
  case False
  then have "lengthV (normalizeV v) = 1" by (rule lengthV_normalizeV)
  then show ?thesis by (rule normalizeV_unit)
qed

lemma spec_axis_angle_code: "spec_axis_angle n a = setFromAxisAngle (normalizeV n) a"
  by (simp add: spec_axis_angle_def setFromAxisAngle_def Let_def normalizeV_direction mult.commute)

lemma spec_transform_code: "spec_transform q v = applyQuaternion v q"
  by (cases q, cases v)
     (simp add: spec_transform_def applyQuaternion_def multiplyQuaternions_def Let_def
        algebra_simps)

lemma spec_named_axis_code:
  assumes "spec_named_axis axis = Some n"
  shows "axisLocal_of axis = n \<and> normalizeV n = n"
proof (cases axis)
  case (AxisVector v)
  with assms have n: "n = normalizeV v" by (simp add: spec_named_axis_def normalizeV_direction)
  then show ?thesis using AxisVector by (simp add: axisLocal_of_def normalizeV_idem)
next
  case (AxisName a)
  have u: "normalizeV (Vector3 1 0 0) = Vector3 1 0 0" "normalizeV (Vector3 0 1 0) = Vector3 0 1 0"
    "normalizeV (Vector3 0 0 1) = Vector3 0 0 1"
    by (simp_all add: normalizeV_direction lengthV_def)
  from assms AxisName show ?thesis
    by (auto simp add: spec_named_axis_def axisLocal_of_def axis_is_def u split: if_splits)
qed

lemma axisWorld_of_spec:
  assumes n: "spec_named_axis axis = Some n" and g: "artifactGroup s = Some g"
  shows "space = ''world'' \<Longrightarrow>
           setFromAxisAngle (axisWorld_of gwd axis space s) (degrees * pi / 180) = spec_rotQ degrees n"
    and "space = ''local'' \<Longrightarrow>
           setFromAxisAngle (axisWorld_of gwd axis space s) (degrees * pi / 180)
             = spec_rotQ degrees (spec_transform (quaternion g) n)"
proof -
  from spec_named_axis_code[OF n] have a: "axisLocal_of axis = n" and u: "normalizeV n = n"
    by simp_all
  show "space = ''world'' \<Longrightarrow>
           setFromAxisAngle (axisWorld_of gwd axis space s) (degrees * pi / 180) = spec_rotQ degrees n"
    by (simp add: axisWorld_of_def Let_def a spec_rotQ_def spec_axis_angle_code)
  show "space = ''local'' \<Longrightarrow>
           setFromAxisAngle (axisWorld_of gwd axis space s) (degrees * pi / 180)
             = spec_rotQ degrees (spec_transform (quaternion g) n)"
    by (simp add: axisWorld_of_def Let_def a g spec_rotQ_def spec_axis_angle_code
        spec_transform_code)
qed

lemma axisWorld_of_unnamed:
  assumes "spec_named_axis axis = None"
  shows "axisWorld_of gwd axis space s = axisWorld_of gwd (AxisName ''y'') space s"
proof (cases axis)
  case (AxisVector v)
  with assms show ?thesis by (simp add: spec_named_axis_def)
next
  case (AxisName a)
  with assms have "\<not> axis_is a ''x'' ''X''" "\<not> axis_is a ''z'' ''Z''"
    by (auto simp add: spec_named_axis_def axis_is_def split: if_splits)
  with AxisName show ?thesis
    by (auto simp add: axisWorld_of_def axisLocal_of_def axis_is_def Let_def split: option.splits)
qed

lemma rotate_immediate:
  assumes "artifactGroup s = Some g" "dur \<le> 0"
  shows "map_option quaternion (artifactGroup (fst (rotateModelByDegrees gwd perfNow degrees axis dur space s)))
     = Some (if space = ''local''
             then multiplyQuaternions (quaternion g)
                    (setFromAxisAngle (axisWorld_of gwd axis space s) (degrees * pi / 180))
             else multiplyQuaternions
                    (setFromAxisAngle (axisWorld_of gwd axis space s) (degrees * pi / 180))
                    (quaternion g))"
  using assms
  by (simp add: rotateModelByDegrees_def Let_def multiplyQ_def premultiply_def)

lemma rotate_animated:
  assumes "artifactGroup s = Some g" "0 < dur"
  shows "\<exists>s1 a. rotateModelByDegrees gwd perfNow degrees axis dur space s = (s1, Some a) \<and>
     artifactGroup s1 = Some g \<and> \<not> rotationCancelToken s1 \<and> startTime a = perfNow \<and>
     duration a = dur \<and>
     endQ a = (if space = ''local''
               then multiplyQuaternions (quaternion g)
                      (setFromAxisAngle (axisWorld_of gwd axis space s) (degrees * pi / 180))
               else multiplyQuaternions
                      (setFromAxisAngle (axisWorld_of gwd axis space s) (degrees * pi / 180))
                      (quaternion g))"
  using assms
  by (simp add: rotateModelByDegrees_def Let_def multiplyQ_def)

lemma anim_step_continue:
  assumes "\<not> rotationCancelToken s" "artifactGroup s = Some g" "now - startTime a < duration a"
  shows "\<exists>s1 g1. anim_step slerp a now s = (s1, True) \<and> \<not> rotationCancelToken s1 \<and>
           artifactGroup s1 = Some g1"
  using assms by (simp add: anim_step_def Let_def)

lemma anim_step_finish:
  assumes "\<not> rotationCancelToken s" "artifactGroup s = Some g" "\<not> now - startTime a < duration a"
  shows "\<exists>s1. anim_step slerp a now s = (s1, False) \<and>
           map_option quaternion (artifactGroup s1) = Some (endQ a) \<and> \<not> rotationAnimating s1"
  using assms by (simp add: anim_step_def Let_def)

lemma run_animation_completes:
  assumes "\<exists>now \<in> set frames. duration a \<le> now - startTime a"
    and "\<not> rotationCancelToken s" and "artifactGroup s = Some g"
  shows "\<exists>s1. run_animation slerp a frames s = (s1, False) \<and>
           map_option quaternion (artifactGroup s1) = Some (endQ a) \<and> \<not> rotationAnimating s1"
  using assms
proof (induction frames arbitrary: s g)
  case Nil
  then show ?case by simp
next
  case (Cons now frames)
  show ?case
  proof (cases "now - startTime a < duration a")
    case True
    from anim_step_continue[OF Cons.prems(2) Cons.prems(3) True, of slerp]
    obtain s1 g1 where st: "anim_step slerp a now s = (s1, True)"
      and tok: "\<not> rotationCancelToken s1" and grp: "artifactGroup s1 = Some g1" by blast
    from Cons.prems(1) True have ex: "\<exists>t \<in> set frames. duration a \<le> t - startTime a" by auto
    from Cons.IH[OF ex tok grp] st show ?thesis by simp
  next
    case False
    from anim_step_finish[OF Cons.prems(2) Cons.prems(3) False, of slerp]
    show ?thesis by auto
  qed
qed

text \<open>
  C7. An animated rotation (duration above zero) whose frames reach the end of the
  duration, with no cancellation, finishes, and leaves the model group with the same
  quaternion as the immediate rotation (a duration of zero or below). For an axis \<open>n\<close>
  named by the argument and the starting quaternion \<open>q0\<close>, that quaternion is
  \<open>rotQ * q0\<close> in world space, with \<open>rotQ\<close> the rotation by \<open>degrees * pi / 180\<close> about \<open>n\<close>,
  and \<open>q0 * rotQ\<close> in local space, with \<open>rotQ\<close> the rotation by the same angle about \<open>n\<close>
  transformed by \<open>q0\<close>. An argument that names no axis is taken as \<open>y\<close>.
\<close>

theorem rotate_animated_ends_as_immediate:
  assumes grp: "artifactGroup s = Some g"
    and dur: "0 < dur"
    and imd: "dur0 \<le> 0"
    and fin: "\<exists>now \<in> set frames. dur \<le> now - perfNow"
  shows
    "\<exists>s1 a s2.
       rotateModelByDegrees gwd perfNow degrees axis dur space s = (s1, Some a) \<and>
       run_animation slerp a frames s1 = (s2, False) \<and>
       map_option quaternion (artifactGroup s2)
         = map_option quaternion
             (artifactGroup (fst (rotateModelByDegrees gwd perfNow degrees axis dur0 space s))) \<and>
       (\<forall>n. spec_named_axis axis = Some n \<longrightarrow>
          (space = ''world'' \<longrightarrow>
             map_option quaternion (artifactGroup s2)
               = Some (multiplyQuaternions (spec_rotQ degrees n) (quaternion g))) \<and>
          (space = ''local'' \<longrightarrow>
             map_option quaternion (artifactGroup s2)
               = Some (multiplyQuaternions (quaternion g)
                         (spec_rotQ degrees (spec_transform (quaternion g) n))))) \<and>
       (spec_named_axis axis = None \<longrightarrow>
          rotateModelByDegrees gwd perfNow degrees axis dur space s
            = rotateModelByDegrees gwd perfNow degrees (AxisName ''y'') dur space s)"
proof -
  let ?code = "setFromAxisAngle (axisWorld_of gwd axis space s) (degrees * pi / 180)"
  let ?final = "if space = ''local'' then multiplyQuaternions (quaternion g) ?code
                else multiplyQuaternions ?code (quaternion g)"
  from rotate_animated[OF grp dur, of gwd perfNow degrees axis space]
  obtain s1 a where r: "rotateModelByDegrees gwd perfNow degrees axis dur space s = (s1, Some a)"
    and g1: "artifactGroup s1 = Some g" and tok: "\<not> rotationCancelToken s1"
    and st: "startTime a = perfNow" and du: "duration a = dur"
    and e: "endQ a = ?final"
    by blast
  from fin st du have ex: "\<exists>now \<in> set frames. duration a \<le> now - startTime a" by simp
  from run_animation_completes[OF ex tok g1, of slerp]
  obtain s2 where run: "run_animation slerp a frames s1 = (s2, False)"
    and q: "map_option quaternion (artifactGroup s2) = Some (endQ a)" by blast
  have imm: "map_option quaternion
      (artifactGroup (fst (rotateModelByDegrees gwd perfNow degrees axis dur0 space s)))
     = Some ?final"
    using grp imd by (rule rotate_immediate)
  have q2: "map_option quaternion (artifactGroup s2) = Some ?final"
    using q unfolding e .
  have same: "map_option quaternion (artifactGroup s2)
     = map_option quaternion
         (artifactGroup (fst (rotateModelByDegrees gwd perfNow degrees axis dur0 space s)))"
    unfolding q2 imm ..
  have named: "\<forall>n. spec_named_axis axis = Some n \<longrightarrow>
          (space = ''world'' \<longrightarrow>
             map_option quaternion (artifactGroup s2)
               = Some (multiplyQuaternions (spec_rotQ degrees n) (quaternion g))) \<and>
          (space = ''local'' \<longrightarrow>
             map_option quaternion (artifactGroup s2)
               = Some (multiplyQuaternions (quaternion g)
                         (spec_rotQ degrees (spec_transform (quaternion g) n))))"
  proof (intro allI impI conjI)
    fix n assume n: "spec_named_axis axis = Some n"
    {
      assume w: "space = ''world''"
      from axisWorld_of_spec(1)[OF n grp w, of gwd degrees] w
      show "map_option quaternion (artifactGroup s2)
               = Some (multiplyQuaternions (spec_rotQ degrees n) (quaternion g))"
        unfolding q2 by simp
    }
    {
      assume l: "space = ''local''"
      from axisWorld_of_spec(2)[OF n grp l, of gwd degrees] l
      show "map_option quaternion (artifactGroup s2)
               = Some (multiplyQuaternions (quaternion g)
                         (spec_rotQ degrees (spec_transform (quaternion g) n)))"
        unfolding q2 by simp
    }
  qed
  have unnamed: "spec_named_axis axis = None \<longrightarrow>
          rotateModelByDegrees gwd perfNow degrees axis dur space s
            = rotateModelByDegrees gwd perfNow degrees (AxisName ''y'') dur space s"
  proof
    assume "spec_named_axis axis = None"
    then have e: "axisWorld_of gwd axis space s = axisWorld_of gwd (AxisName ''y'') space s"
      by (rule axisWorld_of_unnamed)
    show "rotateModelByDegrees gwd perfNow degrees axis dur space s
            = rotateModelByDegrees gwd perfNow degrees (AxisName ''y'') dur space s"
      unfolding rotateModelByDegrees_def e by (rule refl)
  qed
  from r run same named unnamed show ?thesis by (intro exI conjI)
qed

lemma sin_cos_quarter: "sin (pi / 4) = sqrt 2 / 2 \<and> cos (pi / 4) = sqrt 2 / 2"
  by (simp add: sin_45 cos_45)

theorem rotate_animated_ends_as_immediate_witness:
  "\<exists>s1 a s2.
     rotateModelByDegrees (\<lambda>_. Vector3 0 0 (- 1)) 1000 90 (AxisName ''x'') 600 ''local'' init_scene
       = (s1, Some a) \<and>
     run_animation (\<lambda>qa qb t. qa) a [1016, 1300, 1616] s1 = (s2, False) \<and>
     map_option quaternion (artifactGroup s2)
       = map_option quaternion (artifactGroup (fst
           (rotateModelByDegrees (\<lambda>_. Vector3 0 0 (- 1)) 1000 90 (AxisName ''x'') 0 ''local''
              init_scene))) \<and>
     map_option quaternion (artifactGroup s2) = Some (Quaternion (sqrt 2 / 2) 0 0 (sqrt 2 / 2))"
proof -
  have g: "artifactGroup init_scene = Some \<lparr>quaternion = identityQ, children = []\<rparr>"
    by (simp add: init_scene_def)
  have d: "(0::real) < 600" by simp
  have i: "(0::real) \<le> 0" by simp
  have f: "\<exists>now \<in> set [1016, 1300, 1616 :: real]. 600 \<le> now - 1000" by simp
  have n: "spec_named_axis (AxisName ''x'') = Some (Vector3 1 0 0)"
    by (simp add: spec_named_axis_def)
  have t: "spec_transform identityQ (Vector3 1 0 0) = Vector3 1 0 0"
    by (simp add: spec_transform_def identityQ_def multiplyQuaternions_def Let_def)
  have a: "(90::real) * pi / 180 / 2 = pi / 4" by simp
  have rq: "spec_rotQ 90 (Vector3 1 0 0) = Quaternion (sqrt 2 / 2) 0 0 (sqrt 2 / 2)"
    unfolding spec_rotQ_def spec_axis_angle_def a by (simp add: lengthV_def sin_cos_quarter)
  have v: "multiplyQuaternions identityQ (Quaternion (sqrt 2 / 2) 0 0 (sqrt 2 / 2))
      = Quaternion (sqrt 2 / 2) 0 0 (sqrt 2 / 2)"
    by (simp add: multiplyQuaternions_def identityQ_def)
  from rotate_animated_ends_as_immediate[OF g d i f, of "\<lambda>_. Vector3 0 0 (- 1)" 90
      "AxisName ''x''" "''local''" "\<lambda>qa qb t. qa"]
  obtain s1 a s2 where
    r: "rotateModelByDegrees (\<lambda>_. Vector3 0 0 (- 1)) 1000 90 (AxisName ''x'') 600 ''local'' init_scene
       = (s1, Some a)"
    and run: "run_animation (\<lambda>qa qb t. qa) a [1016, 1300, 1616] s1 = (s2, False)"
    and same: "map_option quaternion (artifactGroup s2)
       = map_option quaternion (artifactGroup (fst
           (rotateModelByDegrees (\<lambda>_. Vector3 0 0 (- 1)) 1000 90 (AxisName ''x'') 0 ''local''
              init_scene)))"
    and named: "\<forall>n. spec_named_axis (AxisName ''x'') = Some n \<longrightarrow>
          (''local'' = ''world'' \<longrightarrow>
             map_option quaternion (artifactGroup s2)
               = Some (multiplyQuaternions (spec_rotQ 90 n)
                   (quaternion \<lparr>quaternion = identityQ, children = []\<rparr>))) \<and>
          (''local'' = ''local'' \<longrightarrow>
             map_option quaternion (artifactGroup s2)
               = Some (multiplyQuaternions (quaternion \<lparr>quaternion = identityQ, children = []\<rparr>)
                         (spec_rotQ 90 (spec_transform
                            (quaternion \<lparr>quaternion = identityQ, children = []\<rparr>) n))))"
    by blast
  from named n have "map_option quaternion (artifactGroup s2)
      = Some (multiplyQuaternions identityQ (spec_rotQ 90 (spec_transform identityQ (Vector3 1 0 0))))"
    by simp
  then have fq: "map_option quaternion (artifactGroup s2) = Some (Quaternion (sqrt 2 / 2) 0 0 (sqrt 2 / 2))"
    unfolding t rq v .
  from r run same fq show ?thesis by blast
qed

subsection \<open>Loading a model\<close>

subsection \<open>Bounding boxes under translation and scaling\<close>















subsection \<open>What the operations leave alone\<close>







subsection \<open>The load step\<close>














subsection \<open>The settings panel\<close>

lemma applySettings_item:
  "applySettings toNumber True f st ''viewer.settings''
     = Some (Doc (stringify (applySettings_cfg toNumber f)))"
  by (simp add: applySettings_def)

text \<open>
  C10 (as amended). \<open>applySettings\<close> stores the five form values under the key
  \<open>'viewer.settings'\<close>, and \<open>loadSettings\<close> run afterwards, on a form that has the five
  inputs, puts back exactly the values that were applied, provided the storage took the
  item, the four text settings are not empty, and the feature angle's text is the text of
  the number it denotes.
\<close>

theorem loadSettings_after_applySettings:
  assumes applied: "f = \<lparr>setting_bgcolor = Some bg, setting_font = Some fo,
        setting_fontsize = Some fs, setting_mousemode = Some mm,
        setting_featureangle = Some fa\<rparr>"
    and truthy: "bg \<noteq> [] \<and> fo \<noteq> [] \<and> fs \<noteq> [] \<and> mm \<noteq> []"
    and angle: "fa \<noteq> [] \<and> toNumber fa = Num r \<and> numberToString r = fa"
    and inputs: "setting_bgcolor f' \<noteq> None \<and> setting_font f' \<noteq> None \<and>
        setting_fontsize f' \<noteq> None \<and> setting_mousemode f' \<noteq> None \<and>
        setting_featureangle f' \<noteq> None"
  shows
    "applySettings toNumber True f st ''viewer.settings''
       = Some (Doc \<lparr>saved_bgcolor = Some bg, saved_font = Some fo, saved_fontsize = Some fs,
                    saved_mousemode = Some mm, saved_featureAngle = Some (JNumber r)\<rparr>) \<and>
     loadSettings numberToString (applySettings toNumber True f st) f' = f"
proof -
  have item: "applySettings toNumber True f st ''viewer.settings''
       = Some (Doc \<lparr>saved_bgcolor = Some bg, saved_font = Some fo, saved_fontsize = Some fs,
                    saved_mousemode = Some mm, saved_featureAngle = Some (JNumber r)\<rparr>)"
    using angle
    by (simp add: applySettings_item stringify_def applySettings_cfg_def featureAngle_of_def
        applied)
  have "loadSettings numberToString (applySettings toNumber True f st) f'
      = \<lparr>setting_bgcolor = Some bg, setting_font = Some fo,
        setting_fontsize = Some fs, setting_mousemode = Some mm,
        setting_featureangle = Some fa\<rparr>"
    unfolding loadSettings_def item
    using truthy angle inputs
    by (cases f') (auto simp add: write_back_def write_back_angle_def)
  then have load: "loadSettings numberToString (applySettings toNumber True f st) f' = f"
    by (simp add: applied)
  from item load show ?thesis by blast
qed

theorem loadSettings_after_applySettings_witness:
  "applySettings toNumber_30 True default_form Map.empty ''viewer.settings''
     = Some (Doc \<lparr>saved_bgcolor = Some ''#8a8888'',
                  saved_font = Some ''Segoe UI, Roboto, Helvetica Neue, Arial, sans-serif'',
                  saved_fontsize = Some ''14'', saved_mousemode = Some ''Default'',
                  saved_featureAngle = Some (JNumber 30)\<rparr>) \<and>
   loadSettings numberToString_30 (applySettings toNumber_30 True default_form Map.empty)
     \<lparr>setting_bgcolor = Some ''#000000'', setting_font = Some ''Arial'',
      setting_fontsize = Some ''10'', setting_mousemode = Some ''Inventor'',
      setting_featureangle = Some ''45''\<rparr> = default_form"
proof -
  have h1: "default_form = \<lparr>setting_bgcolor = Some ''#8a8888'',
      setting_font = Some ''Segoe UI, Roboto, Helvetica Neue, Arial, sans-serif'',
      setting_fontsize = Some ''14'', setting_mousemode = Some ''Default'',
      setting_featureangle = Some ''30''\<rparr>" by (simp add: default_form_def)
  have h2: "''#8a8888'' \<noteq> [] \<and> ''Segoe UI, Roboto, Helvetica Neue, Arial, sans-serif'' \<noteq> [] \<and>
      ''14'' \<noteq> [] \<and> ''Default'' \<noteq> []" by simp
  have h3: "''30'' \<noteq> [] \<and> toNumber_30 ''30'' = Num 30 \<and> numberToString_30 30 = ''30''"
    by (simp add: toNumber_30_def numberToString_30_def)
  let ?f' = "\<lparr>setting_bgcolor = Some ''#000000'', setting_font = Some ''Arial'',
      setting_fontsize = Some ''10'', setting_mousemode = Some ''Inventor'',
      setting_featureangle = Some ''45''\<rparr>"
  have h4: "setting_bgcolor ?f' \<noteq> None \<and> setting_font ?f' \<noteq> None \<and>
        setting_fontsize ?f' \<noteq> None \<and> setting_mousemode ?f' \<noteq> None \<and>
        setting_featureangle ?f' \<noteq> None" by simp
  from loadSettings_after_applySettings[where toNumber = toNumber_30
      and numberToString = numberToString_30 and r = 30 and st = Map.empty, OF h1 h2 h3 h4]
  show ?thesis .
qed

text \<open>
  C10 (as stated). With the font size input cleared, \<open>applySettings\<close> stores the empty
  text; \<open>loadSettings\<close> skips it as falsy, and the input keeps what it held instead of
  getting back the applied value.
\<close>

theorem loadSettings_skips_empty_counterexample:
  "setting_fontsize
     (loadSettings numberToString_30
        (applySettings toNumber_30 True cleared_fontsize_form Map.empty) default_form)
   \<noteq> setting_fontsize cleared_fontsize_form"
  by (simp add: loadSettings_def applySettings_def stringify_def applySettings_cfg_def
      write_back_def cleared_fontsize_form_def default_form_def)

end
